theory Spec2Isabelle
  imports Main "HOL-Library.AList" "HOL-Library.Word"
begin

section \<open>Strings (the functions of Go's \<open>strings\<close> package the code calls)\<close>

text \<open>
  A Go string is a byte sequence; it is modelled as a \<open>string\<close> (a list of 8-bit
  characters). The separator of every \<open>Split\<close> and \<open>Join\<close> in the code is the
  one-character string \<open>"."\<close>, so both take the separator as a character.
\<close>

definition HasSuffix :: "string \<Rightarrow> string \<Rightarrow> bool" where
  "HasSuffix s suf = (length suf \<le> length s \<and> drop (length s - length suf) s = suf)"

definition HasPrefix :: "string \<Rightarrow> string \<Rightarrow> bool" where
  "HasPrefix s pre = (take (length pre) s = pre)"

definition TrimSuffix :: "string \<Rightarrow> string \<Rightarrow> string" where
  "TrimSuffix s suf = (if HasSuffix s suf then take (length s - length suf) s else s)"

definition TrimPrefix :: "string \<Rightarrow> string \<Rightarrow> string" where
  "TrimPrefix s pre = (if HasPrefix s pre then drop (length pre) s else s)"

fun Split :: "string \<Rightarrow> char \<Rightarrow> string list" where
  "Split [] sep = [[]]"
| "Split (c # cs) sep =
     (if c = sep then [] # Split cs sep
      else (case Split cs sep of [] \<Rightarrow> [[c]] | p # ps \<Rightarrow> (c # p) # ps))"

fun Join :: "string list \<Rightarrow> char \<Rightarrow> string" where
  "Join [] sep = []"
| "Join [p] sep = p"
| "Join (p # q # ps) sep = p @ sep # Join (q # ps) sep"

text \<open>An upper-case ASCII letter (bytes 65 to 90) becomes lower-case by setting bit 5.\<close>

definition lower_char :: "char \<Rightarrow> char" where
  "lower_char c =
     (case c of Char b0 b1 b2 b3 b4 b5 b6 b7 \<Rightarrow>
        if 65 \<le> (of_char c :: nat) \<and> (of_char c :: nat) \<le> 90
        then Char b0 b1 b2 b3 b4 True b6 b7 else c)"

subsection \<open>UTF-8 and \<open>strings.ToLower\<close>\<close>

text \<open>
  \<open>strings.ToLower\<close> lower-cases an all-ASCII string byte by byte. Any other string is
  read as UTF-8, rune by rune, each rune is mapped by \<open>unicode.ToLower\<close> and written back
  as UTF-8; a byte that starts no valid encoding is read as the rune \<open>RuneError\<close>, of
  width 1. Bytes and runes are numbers here. The case tables of the \<open>unicode\<close> package are
  not part of this repository: \<open>tbl\<close> is \<open>unicode.ToLower\<close> on the runes above ASCII.
\<close>

type_synonym case_table = "nat \<Rightarrow> nat"

definition RuneError :: nat where
  "RuneError = 0xFFFD"

text \<open>For a leading byte: the length of the encoding and the range of the second byte.\<close>

definition leading :: "nat \<Rightarrow> (nat \<times> nat \<times> nat) option" where
  "leading b0 =
     (if 0xC2 \<le> b0 \<and> b0 \<le> 0xDF then Some (2, 0x80, 0xBF)
      else if b0 = 0xE0 then Some (3, 0xA0, 0xBF)
      else if (0xE1 \<le> b0 \<and> b0 \<le> 0xEC) \<or> b0 = 0xEE \<or> b0 = 0xEF then Some (3, 0x80, 0xBF)
      else if b0 = 0xED then Some (3, 0x80, 0x9F)
      else if b0 = 0xF0 then Some (4, 0x90, 0xBF)
      else if 0xF1 \<le> b0 \<and> b0 \<le> 0xF3 then Some (4, 0x80, 0xBF)
      else if b0 = 0xF4 then Some (4, 0x80, 0x8F)
      else None)"

text \<open>\<open>utf8.DecodeRuneInString\<close>: the first rune of the bytes and its width.\<close>

definition DecodeRune :: "nat list \<Rightarrow> nat \<times> nat" where
  "DecodeRune bs =
     (case bs of
        [] \<Rightarrow> (RuneError, 0)
      | b0 # rest \<Rightarrow>
          if b0 < 0x80 then (b0, 1)
          else
            (case leading b0 of
               None \<Rightarrow> (RuneError, 1)
             | Some (sz, lo, hi) \<Rightarrow>
                 if length bs < sz then (RuneError, 1)
                 else if rest ! 0 < lo \<or> hi < rest ! 0 then (RuneError, 1)
                 else if sz \<le> 2 then ((b0 mod 32) * 64 + rest ! 0 mod 64, 2)
                 else if rest ! 1 < 0x80 \<or> 0xBF < rest ! 1 then (RuneError, 1)
                 else if sz \<le> 3
                 then ((b0 mod 16) * 4096 + (rest ! 0 mod 64) * 64 + rest ! 1 mod 64, 3)
                 else if rest ! 2 < 0x80 \<or> 0xBF < rest ! 2 then (RuneError, 1)
                 else ((b0 mod 8) * 262144 + (rest ! 0 mod 64) * 4096 +
                       (rest ! 1 mod 64) * 64 + rest ! 2 mod 64, 4)))"

text \<open>The runes that \<open>for _, c := range s\<close> visits.\<close>

function runes :: "nat list \<Rightarrow> nat list" where
  "runes [] = []"
| "runes (b # bs) = fst (DecodeRune (b # bs)) # runes (drop (snd (DecodeRune (b # bs))) (b # bs))"
  by pat_completeness auto
termination
proof (relation "measure length")
  show "wf (measure length)"
    by simp
next
  fix b :: nat and bs :: "nat list"
  have "0 < snd (DecodeRune (b # bs))"
    by (simp add: DecodeRune_def split: option.splits prod.splits)
  then show "(drop (snd (DecodeRune (b # bs))) (b # bs), b # bs) \<in> measure length"
    by simp
qed

text \<open>\<open>utf8.AppendRune\<close>: a surrogate or a number above \<open>0x10FFFF\<close> is written as \<open>RuneError\<close>.\<close>

definition EncodeRune :: "nat \<Rightarrow> nat list" where
  "EncodeRune r =
     (if r < 0x80 then [r]
      else if r < 0x800 then [0xC0 + r div 64, 0x80 + r mod 64]
      else if 0x10FFFF < r \<or> (0xD800 \<le> r \<and> r \<le> 0xDFFF) then [0xEF, 0xBF, 0xBD]
      else if r < 0x10000 then [0xE0 + r div 4096, 0x80 + r div 64 mod 64, 0x80 + r mod 64]
      else [0xF0 + r div 262144, 0x80 + r div 4096 mod 64, 0x80 + r div 64 mod 64,
            0x80 + r mod 64])"

definition ToLowerRune :: "case_table \<Rightarrow> nat \<Rightarrow> nat" where
  "ToLowerRune tbl r =
     (if r < 0x80 then (if 65 \<le> r \<and> r \<le> 90 then r + 32 else r) else tbl r)"

definition ToLower :: "case_table \<Rightarrow> string \<Rightarrow> string" where
  "ToLower tbl s =
     (if list_all (\<lambda>c. (of_char c :: nat) < 0x80) s then map lower_char s
      else map char_of
             (concat (map (\<lambda>r. EncodeRune (ToLowerRune tbl r)) (runes (map of_char s)))))"

section \<open>DNS whitelist (package dns)\<close>

text \<open>
  \<open>DNSWhitelist.Hosts\<close> is a Go \<open>map[string]bool\<close> whose stored values are all
  \<open>true\<close>; indexing it at an absent key yields \<open>false\<close>. It is modelled by its
  lookup function.
\<close>

record DNSWhitelist =
  Enabled :: bool
  Hosts :: "string \<Rightarrow> bool"

definition NewWhitelist :: DNSWhitelist where
  "NewWhitelist = \<lparr>Enabled = False, Hosts = (\<lambda>_. False)\<rparr>"

fun addHosts :: "case_table \<Rightarrow> (string \<Rightarrow> bool) \<Rightarrow> string list \<Rightarrow> (string \<Rightarrow> bool)" where
  "addHosts tbl m [] = m"
| "addHosts tbl m (host # hosts) =
     (let normalized = ToLower tbl (TrimSuffix host ''.'')
      in addHosts tbl (m(normalized := True, normalized @ ''.'' := True)) hosts)"

definition SetWhitelist :: "case_table \<Rightarrow> bool \<Rightarrow> string list \<Rightarrow> DNSWhitelist" where
  "SetWhitelist tbl enabled hosts =
     \<lparr>Enabled = enabled, Hosts = addHosts tbl (\<lambda>_. False) hosts\<rparr>"

definition isWhitelistEnabled :: "DNSWhitelist \<Rightarrow> bool" where
  "isWhitelistEnabled wl = Enabled wl"

text \<open>The loop \<open>for i := 0; i < len(parts); i++\<close> over the suffixes \<open>parts[i:]\<close>.\<close>

fun subdomainMatch :: "(string \<Rightarrow> bool) \<Rightarrow> string list \<Rightarrow> bool" where
  "subdomainMatch hosts [] = False"
| "subdomainMatch hosts (p # ps) =
     (let domain = Join (p # ps) CHR ''.''
      in if hosts domain \<or> hosts (domain @ ''.'') then True else subdomainMatch hosts ps)"

definition isHostAllowed :: "case_table \<Rightarrow> DNSWhitelist \<Rightarrow> string \<Rightarrow> bool" where
  "isHostAllowed tbl wl queryName =
     (if \<not> Enabled wl then True
      else let normalized = ToLower tbl (TrimSuffix queryName ''.'')
           in if Hosts wl normalized \<or> Hosts wl (normalized @ ''.'') then True
              else subdomainMatch (Hosts wl) (Split normalized CHR ''.''))"

text \<open>
  A name \<open>d\<close> matches a stored entry when the host table holds it, in either of the two
  spellings (with and without the trailing dot) under which \<open>SetWhitelist\<close> stores
  every host.
\<close>

definition stored :: "DNSWhitelist \<Rightarrow> string \<Rightarrow> bool" where
  "stored wl d = (Hosts wl d \<or> Hosts wl (d @ ''.''))"

text \<open>\<open>d\<close> is what is left of \<open>n\<close> after stripping one or more leading labels at a dot.\<close>

definition stripped_labels :: "string \<Rightarrow> string \<Rightarrow> bool" where
  "stripped_labels n d = (\<exists>pre. n = pre @ CHR ''.'' # d)"


section \<open>Service discovery registry (package discovery)\<close>

text \<open>
  Instants and durations are integers counting nanoseconds, as Go's \<open>time\<close> package
  does. \<open>Port\<close> is an \<open>int32\<close>; the code only copies and prints it.
\<close>

type_synonym time = int

definition Second :: int where
  "Second = 1000000000"

record ServiceEndpoint =
  ServiceName :: string
  Namespace :: string
  PodID :: string
  PodName :: string
  NodeName :: string
  Address :: string
  Port :: int
  Healthy :: bool
  LastSeen :: time

text \<open>
  \<open>ServiceRegistry.services\<close> maps a service key to a map from endpoint id to endpoint.
  Go iterates a map in an unspecified order: the inner map is an association list with
  distinct keys, and its order stands for the order in which a \<open>range\<close> loop visits it.
\<close>

type_synonym registry = "string \<rightharpoonup> (string \<times> ServiceEndpoint) list"

datatype error =
    ServiceNotFound string
  | NotFound string
  | InvalidServiceName string
  | InvalidSRVName string
  | UnmarshalError
  | TransportError
  | PersistError
  | ScheduleError
  | CreatePodError
  | StartPodError
  | EncryptError

definition serviceKey :: "string \<Rightarrow> string \<Rightarrow> string" where
  "serviceKey serviceName namespace = serviceName @ ''.'' @ namespace"

definition endpointID :: "string \<Rightarrow> string \<Rightarrow> string \<Rightarrow> string" where
  "endpointID namespace serviceName podID = namespace @ ''-'' @ serviceName @ ''-'' @ podID"

definition fresh :: "time \<Rightarrow> ServiceEndpoint \<Rightarrow> bool" where
  "fresh now endpoint = (Healthy endpoint \<and> now - LastSeen endpoint < 30 * Second)"

definition GetServiceEndpoints ::
  "registry \<Rightarrow> time \<Rightarrow> string \<Rightarrow> string \<Rightarrow> error + ServiceEndpoint list" where
  "GetServiceEndpoints reg now serviceName namespace =
     (let key = serviceKey serviceName namespace
      in case reg key of
           None \<Rightarrow> Inl (ServiceNotFound key)
         | Some endpoints \<Rightarrow> Inr (filter (fresh now) (map snd endpoints)))"

section \<open>DNS server (package dns)\<close>

text \<open>
  Resource records, questions and messages of the DNS library, with the fields the code
  reads and writes. A priority and a weight are \<open>uint16\<close>. A return code is a number:
  0 is \<open>RcodeSuccess\<close>, 2 \<open>RcodeServerFailure\<close>, 5 \<open>RcodeRefused\<close>.
\<close>

datatype RR =
    RR_A string nat string
  | RR_SRV string nat "16 word" "16 word" int string
  | RR_CNAME string nat string
  | RR_Other string

datatype qtype = TypeA | TypeSRV | TypeAAAA | TypeOther

record Question =
  Name :: string
  Qtype :: qtype

record Msg =
  Rcode :: nat
  Authoritative :: bool
  Questions :: "Question list"
  Answer :: "RR list"
  Extra :: "RR list"

definition RcodeSuccess :: nat where
  "RcodeSuccess = 0"

definition RcodeServerFailure :: nat where
  "RcodeServerFailure = 2"

definition RcodeRefused :: nat where
  "RcodeRefused = 5"

definition SetReply :: "Msg \<Rightarrow> Msg" where
  "SetReply r = \<lparr>Rcode = RcodeSuccess, Authoritative = False, Questions = take 1 (Questions r),
                 Answer = [], Extra = []\<rparr>"

text \<open>
  The code prints a record as a line of zone text and has the library's \<open>dns.NewRR\<close>
  parse it. The parser is not part of this repository: \<open>accepts\<close> says which records it
  accepts, and an accepted line is read back as the record it was printed from.
\<close>

definition NewRR :: "(RR \<Rightarrow> bool) \<Rightarrow> RR \<Rightarrow> RR option" where
  "NewRR accepts rr = (if accepts rr then Some rr else None)"

record Server =
  discovery :: registry
  clusterDomain :: string
  upstreamDNS :: "string list"
  whitelist :: DNSWhitelist

definition parseServiceName :: "Server \<Rightarrow> string \<Rightarrow> error + (string \<times> string)" where
  "parseServiceName s name0 =
     (let name1 = TrimSuffix name0 ''.'';
          name2 = TrimSuffix name1 (''.'' @ clusterDomain s);
          name3 = TrimSuffix name2 (''.svc.'' @ clusterDomain s);
          parts = Split name3 CHR ''.''
      in if length parts < 2 then Inl (InvalidServiceName name3)
         else Inr (Join (butlast parts) CHR ''.'', last parts))"

definition parseSRVName ::
  "Server \<Rightarrow> string \<Rightarrow> error + (string \<times> string \<times> string \<times> string)" where
  "parseSRVName s name0 =
     (let name1 = TrimSuffix name0 ''.'';
          name2 = TrimSuffix name1 (''.'' @ clusterDomain s);
          name3 = TrimSuffix name2 (''.svc.'' @ clusterDomain s);
          parts = Split name3 CHR ''.''
      in if length parts < 4 then Inl (InvalidSRVName name3)
         else if \<not> HasPrefix (parts ! 0) ''_'' \<or> \<not> HasPrefix (parts ! 1) ''_''
         then Inl (InvalidSRVName name3)
         else Inr (TrimPrefix (parts ! 0) ''_'', TrimPrefix (parts ! 1) ''_'',
                   Join (drop 2 (butlast parts)) CHR ''.'', last parts))"

text \<open>The loop of \<open>handleAQuery\<close> over the endpoints; a record the parser rejects is skipped.\<close>

fun addARecords :: "(RR \<Rightarrow> bool) \<Rightarrow> string \<Rightarrow> Msg \<Rightarrow> ServiceEndpoint list \<Rightarrow> Msg" where
  "addARecords accepts qname m [] = m"
| "addARecords accepts qname m (endpoint # endpoints) =
     (case NewRR accepts (RR_A qname 60 (Address endpoint)) of
        None \<Rightarrow> addARecords accepts qname m endpoints
      | Some rr \<Rightarrow> addARecords accepts qname (m\<lparr>Answer := Answer m @ [rr]\<rparr>) endpoints)"

definition handleAQuery :: "(RR \<Rightarrow> bool) \<Rightarrow> Server \<Rightarrow> time \<Rightarrow> Msg \<Rightarrow> Question \<Rightarrow> Msg" where
  "handleAQuery accepts s now m q =
     (case parseServiceName s (Name q) of
        Inl err \<Rightarrow> m
      | Inr (serviceName, namespace) \<Rightarrow>
          (case GetServiceEndpoints (discovery s) now serviceName namespace of
             Inl err \<Rightarrow> m
           | Inr endpoints \<Rightarrow> addARecords accepts (Name q) m endpoints))"

text \<open>
  The second loop of \<open>handleSRVQuery\<close>, at index \<open>i\<close> with the current \<open>priority\<close>.
  A rejected SRV record takes the \<open>continue\<close>, which also skips the priority update.
\<close>

fun addSRVRecords ::
  "(RR \<Rightarrow> bool) \<Rightarrow> string \<Rightarrow> string \<Rightarrow> int \<Rightarrow> nat \<Rightarrow> 16 word \<Rightarrow> Msg \<Rightarrow>
   ServiceEndpoint list \<Rightarrow> Msg" where
  "addSRVRecords accepts qname target targetPort i priority m [] = m"
| "addSRVRecords accepts qname target targetPort i priority m (endpoint # endpoints) =
     (case NewRR accepts (RR_SRV qname 60 priority 10 targetPort target) of
        None \<Rightarrow> addSRVRecords accepts qname target targetPort (i + 1) priority m endpoints
      | Some rr \<Rightarrow>
          (let m1 = m\<lparr>Answer := Answer m @ [rr]\<rparr>;
               m2 = (case NewRR accepts (RR_A target 60 (Address endpoint)) of
                       Some aRR \<Rightarrow> m1\<lparr>Extra := Extra m1 @ [aRR]\<rparr>
                     | None \<Rightarrow> m1);
               priority' = (if i > 0 then priority + 10 else priority)
           in addSRVRecords accepts qname target targetPort (i + 1) priority' m2 endpoints))"

definition handleSRVQuery :: "(RR \<Rightarrow> bool) \<Rightarrow> Server \<Rightarrow> time \<Rightarrow> Msg \<Rightarrow> Question \<Rightarrow> Msg" where
  "handleSRVQuery accepts s now m q =
     (case parseSRVName s (Name q) of
        Inl err \<Rightarrow> m
      | Inr (portName, protocol, serviceName, namespace) \<Rightarrow>
          (case GetServiceEndpoints (discovery s) now serviceName namespace of
             Inl err \<Rightarrow> m
           | Inr endpoints \<Rightarrow>
               (let targetPort = (case endpoints of [] \<Rightarrow> 0 | endpoint # _ \<Rightarrow> Port endpoint);
                    target = serviceName @ ''.'' @ namespace @ ''.'' @ clusterDomain s @ ''.''
                in addSRVRecords accepts (Name q) target targetPort 0 10 m endpoints)))"

subsection \<open>Forwarding\<close>

fun cnameAllowed :: "case_table \<Rightarrow> DNSWhitelist \<Rightarrow> RR \<Rightarrow> bool" where
  "cnameAllowed tbl wl (RR_CNAME name ttl target) = isHostAllowed tbl wl target"
| "cnameAllowed tbl wl rr = True"

fun extractTargets :: "case_table \<Rightarrow> string list \<Rightarrow> RR list \<Rightarrow> string list" where
  "extractTargets tbl targets [] = targets"
| "extractTargets tbl targets (RR_CNAME name ttl t # rrs) =
     (let target = ToLower tbl (TrimSuffix t ''.'')
      in if target \<in> set targets then extractTargets tbl targets rrs
         else extractTargets tbl (targets @ [target]) rrs)"
| "extractTargets tbl targets (rr # rrs) = extractTargets tbl targets rrs"

definition extractCNAMETargets :: "case_table \<Rightarrow> Msg \<Rightarrow> string list" where
  "extractCNAMETargets tbl resp =
     extractTargets tbl (extractTargets tbl [] (Answer resp)) (Extra resp)"

definition validateCNAMERecords :: "case_table \<Rightarrow> DNSWhitelist \<Rightarrow> Msg \<Rightarrow> bool" where
  "validateCNAMERecords tbl wl resp =
     (if \<not> list_all (cnameAllowed tbl wl) (Answer resp) then False
      else if \<not> list_all (cnameAllowed tbl wl) (Extra resp) then False
      else list_all (isHostAllowed tbl wl) (extractCNAMETargets tbl resp))"

text \<open>
  A \<open>dns.Client\<close> with its transport and timeout, and the network: \<open>exchange i c u\<close> is
  what \<open>client.Exchange(r, upstream)\<close> returns when the \<open>i\<close>-th upstream \<open>u\<close> is asked
  through client \<open>c\<close> (an error, or a response that may be \<open>nil\<close>). The second component
  of the result of \<open>forwardQuery\<close> lists the exchanges made, in order.
\<close>

record Client =
  Net :: string
  Timeout :: int

type_synonym exchange = "nat \<Rightarrow> Client \<Rightarrow> string \<Rightarrow> error + Msg option"

type_synonym contacts = "(Client \<times> string) list"

text \<open>One pass of the loop body up to the response: UDP first, TCP when UDP fails.\<close>

definition exchangeUpstream :: "exchange \<Rightarrow> nat \<Rightarrow> string \<Rightarrow> (error + Msg option) \<times> contacts" where
  "exchangeUpstream ex i upstream =
     (let client = \<lparr>Net = ''udp'', Timeout = 5 * Second\<rparr>
      in case ex i client upstream of
           Inr resp \<Rightarrow> (Inr resp, [(client, upstream)])
         | Inl err \<Rightarrow>
             (let client' = client\<lparr>Net := ''tcp''\<rparr>
              in (ex i client' upstream, [(client, upstream), (client', upstream)])))"

fun tryUpstreams ::
  "case_table \<Rightarrow> DNSWhitelist \<Rightarrow> exchange \<Rightarrow> nat \<Rightarrow> string list \<Rightarrow> Msg option \<times> contacts" where
  "tryUpstreams tbl wl ex i [] = (None, [])"
| "tryUpstreams tbl wl ex i (upstream # upstreams) =
     (let (res, made) = exchangeUpstream ex i upstream;
          (final, rest) = tryUpstreams tbl wl ex (i + 1) upstreams
      in case res of
           Inl err \<Rightarrow> (final, made @ rest)
         | Inr None \<Rightarrow> (final, made @ rest)
         | Inr (Some resp) \<Rightarrow>
             if Rcode resp = RcodeSuccess
             then (if isWhitelistEnabled wl \<and> \<not> validateCNAMERecords tbl wl resp
                   then (final, made @ rest)
                   else (Some resp, made))
             else (final, made @ rest))"

definition forwardQuery :: "case_table \<Rightarrow> Server \<Rightarrow> exchange \<Rightarrow> Msg \<Rightarrow> Msg \<times> contacts" where
  "forwardQuery tbl s ex r =
     (let queryName = (case Questions r of [] \<Rightarrow> [] | q # _ \<Rightarrow> Name q)
      in if isWhitelistEnabled (whitelist s) \<and> \<not> isHostAllowed tbl (whitelist s) queryName
         then ((SetReply r)\<lparr>Rcode := RcodeRefused\<rparr>, [])
         else (case tryUpstreams tbl (whitelist s) ex 0 (upstreamDNS s) of
                 (Some resp, made) \<Rightarrow> (resp, made)
               | (None, made) \<Rightarrow> ((SetReply r)\<lparr>Rcode := RcodeServerFailure\<rparr>, made)))"

text \<open>
  An upstream is usable when its exchange ends in a response with \<open>RcodeSuccess\<close> whose
  CNAME targets all pass the whitelist.
\<close>

definition usable :: "case_table \<Rightarrow> DNSWhitelist \<Rightarrow> exchange \<Rightarrow> nat \<Rightarrow> string \<Rightarrow> bool" where
  "usable tbl wl ex i upstream =
     (case fst (exchangeUpstream ex i upstream) of
        Inr (Some resp) \<Rightarrow>
          Rcode resp = RcodeSuccess \<and> (Enabled wl \<longrightarrow> validateCNAMERecords tbl wl resp)
      | _ \<Rightarrow> False)"

definition questionName :: "Msg \<Rightarrow> string" where
  "questionName r = (case Questions r of [] \<Rightarrow> [] | q # _ \<Rightarrow> Name q)"

text \<open>The exchanges made when the upstreams \<open>ups\<close> are asked one after the other from index \<open>i\<close>.\<close>

definition contactsOf :: "exchange \<Rightarrow> nat \<Rightarrow> string list \<Rightarrow> contacts" where
  "contactsOf ex i ups = concat (map (\<lambda>(j, u). snd (exchangeUpstream ex j u)) (enumerate i ups))"

definition udpClient :: Client where
  "udpClient = \<lparr>Net = ''udp'', Timeout = 5 * Second\<rparr>"

definition tcpClient :: Client where
  "tcpClient = \<lparr>Net = ''tcp'', Timeout = 5 * Second\<rparr>"

text \<open>
  The answer section that the specification's sentence on SRV resolution describes:
  the \<open>i\<close>-th endpoint gets priority \<open>10 + 10 i\<close>, weight 10 and its own port.
\<close>

definition spec_SRV_answer :: "string \<Rightarrow> string \<Rightarrow> ServiceEndpoint list \<Rightarrow> RR list" where
  "spec_SRV_answer qname target endpoints =
     map (\<lambda>(i, endpoint). RR_SRV qname 60 (10 + 10 * of_nat i) 10 (Port endpoint) target)
       (enumerate 0 endpoints)"

section \<open>Resource types (package types)\<close>

text \<open>
  A Go \<open>map[string]string\<close> of labels is an association list; indexing it at an absent
  key yields the empty string. A \<open>*Pod\<close> inside a Deployment is a pointer: \<open>addr\<close> is the
  address of a Pod object in the heap of the API layer. The Store copies Deployment
  records and never follows these pointers.
\<close>

type_synonym labels = "(string \<times> string) list"

type_synonym addr = nat

record ContainerPort =
  ContainerPort :: int
  HostPort :: int
  Protocol :: string

record VolumeMount =
  vm_Name :: string
  MountPath :: string
  ReadOnly :: bool

record Container =
  Image :: string
  Ports :: "ContainerPort list"
  Env :: "(string \<times> string) list"
  VolumeMounts :: "VolumeMount list"

record PodTemplateSpec =
  tmpl_Labels :: labels
  tmpl_Annotations :: labels
  tmpl_Containers :: "Container list"
  tmpl_NodeSelector :: labels

definition PodStatePending :: string where
  "PodStatePending = ''Pending''"

record Pod =
  pod_ID :: string
  pod_Name :: string
  pod_Namespace :: string
  pod_NodeName :: string
  pod_State :: string
  pod_Image :: string
  pod_Labels :: labels
  pod_Annotations :: labels
  pod_Ports :: "ContainerPort list"
  pod_Env :: "(string \<times> string) list"
  pod_Volumes :: "VolumeMount list"
  pod_NodeSelector :: labels
  pod_CreatedAt :: int

record Deployment =
  dep_Name :: string
  dep_Namespace :: string
  dep_Replicas :: int
  dep_DesiredReplicas :: int
  dep_Pods :: "addr list"
  dep_Template :: PodTemplateSpec
  dep_Labels :: labels
  dep_Selector :: "labels option"

record ServicePort =
  sp_Name :: string
  sp_Port :: int
  sp_TargetPort :: int
  sp_Protocol :: string

record Service =
  svc_Name :: string
  svc_Namespace :: string
  svc_Type :: string
  svc_Selector :: labels
  svc_Ports :: "ServicePort list"
  svc_ClusterIP :: string
  svc_Labels :: labels

record IngressPath =
  Path :: string
  PathType :: "string option"
  ip_ServiceName :: string
  ip_ServicePort :: int

record IngressRule =
  Host :: string
  Paths :: "IngressPath list"

record Ingress =
  ing_Name :: string
  ing_Namespace :: string
  ing_Rules :: "IngressRule list"
  ing_Labels :: labels
  ing_Annotations :: labels

section \<open>Pointers and panics\<close>

text \<open>
  A run of Go code either returns or panics. A pointer is \<open>nil\<close> or points to a value;
  reading a field through a \<open>nil\<close> pointer panics.
\<close>

datatype 'a outcome = Panic | Returned 'a

datatype 'a ptr = NilPtr | Ptr 'a

definition bindO :: "'a outcome \<Rightarrow> ('a \<Rightarrow> 'b outcome) \<Rightarrow> 'b outcome" where
  "bindO x f = (case x of Panic \<Rightarrow> Panic | Returned v \<Rightarrow> f v)"

section \<open>Persistent store (package storage)\<close>

text \<open>
  The four maps of the Store are keyed by \<open>"<namespace>/<name>"\<close>. Their entries are
  pointers (\<open>map[string]*types.Pod\<close> and so on): an entry can be \<open>nil\<close>, which is what
  \<open>json.Unmarshal\<close> stores for a JSON \<open>null\<close> inside a snapshot. \<open>state_json\<close> and
  \<open>state_json_tmp\<close> are the contents of the two files in the data directory (\<open>None\<close>: the
  file does not exist). What the file system does with a write is an input: \<open>IoOk\<close>, or a
  failure of \<open>os.WriteFile\<close> or of \<open>os.Rename\<close>.
\<close>

record ClusterState =
  cs_Deployments :: "string \<rightharpoonup> Deployment ptr"
  cs_Services :: "string \<rightharpoonup> Service ptr"
  cs_Ingresses :: "string \<rightharpoonup> Ingress ptr"
  cs_Pods :: "string \<rightharpoonup> Pod ptr"
  cs_LastModified :: time
  cs_Version :: int

record Storage =
  deployments :: "string \<rightharpoonup> Deployment ptr"
  services :: "string \<rightharpoonup> Service ptr"
  ingresses :: "string \<rightharpoonup> Ingress ptr"
  pods :: "string \<rightharpoonup> Pod ptr"
  lastModified :: time
  state_json :: "ClusterState option"
  state_json_tmp :: "ClusterState option"

datatype io = IoOk | WriteFails | RenameFails

definition storeKey :: "string \<Rightarrow> string \<Rightarrow> string" where
  "storeKey namespace name = namespace @ ''/'' @ name"

definition GetState :: "Storage \<Rightarrow> ClusterState" where
  "GetState s = \<lparr>cs_Deployments = deployments s, cs_Services = services s,
                 cs_Ingresses = ingresses s, cs_Pods = pods s,
                 cs_LastModified = lastModified s, cs_Version = 1\<rparr>"

definition persist :: "io \<Rightarrow> Storage \<Rightarrow> error option \<times> Storage" where
  "persist fs s =
     (case fs of
        WriteFails \<Rightarrow> (Some PersistError, s)
      | RenameFails \<Rightarrow> (Some PersistError, s\<lparr>state_json_tmp := Some (GetState s)\<rparr>)
      | IoOk \<Rightarrow> (None, s\<lparr>state_json := Some (GetState s), state_json_tmp := None\<rparr>))"

text \<open>
  A call on the Store gives the Store it leaves behind and, beside it, what the call
  returned, or \<open>Panic\<close>. The \<open>Save\<close> functions read the key through the pointer they are given.
\<close>

definition SaveDeployment ::
  "io \<Rightarrow> time \<Rightarrow> Storage \<Rightarrow> Deployment ptr \<Rightarrow> error option outcome \<times> Storage" where
  "SaveDeployment fs now s deployment =
     (case deployment of
        NilPtr \<Rightarrow> (Panic, s)
      | Ptr d \<Rightarrow>
          (let key = storeKey (dep_Namespace d) (dep_Name d);
               (err, s') = persist fs (s\<lparr>deployments := (deployments s)(key \<mapsto> deployment),
                                         lastModified := now\<rparr>)
           in (Returned err, s')))"

definition GetDeployment :: "Storage \<Rightarrow> string \<Rightarrow> string \<Rightarrow> error + Deployment ptr" where
  "GetDeployment s namespace name =
     (case deployments s (storeKey namespace name) of
        None \<Rightarrow> Inl (NotFound (storeKey namespace name))
      | Some deployment \<Rightarrow> Inr deployment)"

definition DeleteDeployment :: "io \<Rightarrow> time \<Rightarrow> Storage \<Rightarrow> string \<Rightarrow> string \<Rightarrow> error option \<times> Storage" where
  "DeleteDeployment fs now s namespace name =
     (let key = storeKey namespace name
      in persist fs (s\<lparr>deployments := (deployments s)(key := None), lastModified := now\<rparr>))"

definition SaveService ::
  "io \<Rightarrow> time \<Rightarrow> Storage \<Rightarrow> Service ptr \<Rightarrow> error option outcome \<times> Storage" where
  "SaveService fs now s service =
     (case service of
        NilPtr \<Rightarrow> (Panic, s)
      | Ptr v \<Rightarrow>
          (let key = storeKey (svc_Namespace v) (svc_Name v);
               (err, s') = persist fs (s\<lparr>services := (services s)(key \<mapsto> service),
                                         lastModified := now\<rparr>)
           in (Returned err, s')))"

definition GetService :: "Storage \<Rightarrow> string \<Rightarrow> string \<Rightarrow> error + Service ptr" where
  "GetService s namespace name =
     (case services s (storeKey namespace name) of
        None \<Rightarrow> Inl (NotFound (storeKey namespace name))
      | Some service \<Rightarrow> Inr service)"

definition DeleteService :: "io \<Rightarrow> time \<Rightarrow> Storage \<Rightarrow> string \<Rightarrow> string \<Rightarrow> error option \<times> Storage" where
  "DeleteService fs now s namespace name =
     (let key = storeKey namespace name
      in persist fs (s\<lparr>services := (services s)(key := None), lastModified := now\<rparr>))"

definition SaveIngress ::
  "io \<Rightarrow> time \<Rightarrow> Storage \<Rightarrow> Ingress ptr \<Rightarrow> error option outcome \<times> Storage" where
  "SaveIngress fs now s ingress =
     (case ingress of
        NilPtr \<Rightarrow> (Panic, s)
      | Ptr v \<Rightarrow>
          (let key = storeKey (ing_Namespace v) (ing_Name v);
               (err, s') = persist fs (s\<lparr>ingresses := (ingresses s)(key \<mapsto> ingress),
                                         lastModified := now\<rparr>)
           in (Returned err, s')))"

definition GetIngress :: "Storage \<Rightarrow> string \<Rightarrow> string \<Rightarrow> error + Ingress ptr" where
  "GetIngress s namespace name =
     (case ingresses s (storeKey namespace name) of
        None \<Rightarrow> Inl (NotFound (storeKey namespace name))
      | Some ingress \<Rightarrow> Inr ingress)"

definition DeleteIngress :: "io \<Rightarrow> time \<Rightarrow> Storage \<Rightarrow> string \<Rightarrow> string \<Rightarrow> error option \<times> Storage" where
  "DeleteIngress fs now s namespace name =
     (let key = storeKey namespace name
      in persist fs (s\<lparr>ingresses := (ingresses s)(key := None), lastModified := now\<rparr>))"

text \<open>
  The loop \<open>for key, pod := range incomingState.Pods\<close>. Go fixes no order for the keys of
  a map: \<open>visit\<close> is the order in which this run of the loop meets them. A key the local
  map lacks takes the incoming pointer, \<open>nil\<close> or not, without a look at it
  (\<open>!ok ||\<close> cuts the comparison short). For a key the local map has, the loop reads
  \<open>pod.CreatedAt\<close> and then \<open>existing.CreatedAt\<close>: a \<open>nil\<close> pointer on either side panics,
  with the keys met before already merged.
\<close>

fun mergePods ::
  "(string \<rightharpoonup> Pod ptr) \<Rightarrow> (string \<rightharpoonup> Pod ptr) \<Rightarrow> string list \<Rightarrow>
   unit outcome \<times> (string \<rightharpoonup> Pod ptr)" where
  "mergePods local incoming [] = (Returned (), local)"
| "mergePods local incoming (key # visit) =
     (case incoming key of
        None \<Rightarrow> mergePods local incoming visit
      | Some pod \<Rightarrow>
          (case local key of
             None \<Rightarrow> mergePods (local(key \<mapsto> pod)) incoming visit
           | Some existing \<Rightarrow>
               (case pod of
                  NilPtr \<Rightarrow> (Panic, local)
                | Ptr p \<Rightarrow>
                    (case existing of
                       NilPtr \<Rightarrow> (Panic, local)
                     | Ptr e \<Rightarrow>
                         if pod_CreatedAt p > pod_CreatedAt e
                         then mergePods (local(key \<mapsto> pod)) incoming visit
                         else mergePods local incoming visit))))"

text \<open>
  \<open>MergeState\<close>. The three loops \<open>for key, x := range incoming { local[key] = x }\<close> are
  \<open>local ++ incoming\<close>; they copy pointers and cannot panic. \<open>lastModified\<close> is set and
  \<open>persist\<close> is called only when the loop over the pods has come to its end. The argument
  is itself a pointer, read at once.
\<close>

definition MergeState ::
  "io \<Rightarrow> time \<Rightarrow> string list \<Rightarrow> Storage \<Rightarrow> ClusterState ptr \<Rightarrow>
   error option outcome \<times> Storage" where
  "MergeState fs now visit s incomingState =
     (case incomingState of
        NilPtr \<Rightarrow> (Panic, s)
      | Ptr incoming \<Rightarrow>
          if cs_LastModified incoming > lastModified s
          then
            (let s1 = s\<lparr>deployments := deployments s ++ cs_Deployments incoming,
                        services := services s ++ cs_Services incoming,
                        ingresses := ingresses s ++ cs_Ingresses incoming\<rparr>
             in case mergePods (pods s1) (cs_Pods incoming) visit of
                  (Panic, merged) \<Rightarrow> (Panic, s1\<lparr>pods := merged\<rparr>)
                | (Returned u, merged) \<Rightarrow>
                    (let (err, s2) = persist fs (s1\<lparr>pods := merged, lastModified := now\<rparr>)
                     in (Returned err, s2)))
          else (Returned None, s))"

text \<open>
  A state-sync message as \<open>json.Unmarshal\<close> delivers it (\<open>Inl\<close>: the payload does not
  decode into the struct). \<open>msg_State\<close> is a pointer and may be \<open>nil\<close>.
\<close>

record StateSyncMessage =
  msg_Type :: string
  msg_State :: "ClusterState ptr"
  msg_Timestamp :: time
  msg_NodeName :: string

definition HandleStateSyncMessage ::
  "io \<Rightarrow> time \<Rightarrow> string list \<Rightarrow> Storage \<Rightarrow> error + StateSyncMessage \<Rightarrow>
   error option outcome \<times> Storage" where
  "HandleStateSyncMessage fs now visit s data =
     (case data of
        Inl err \<Rightarrow> (Returned (Some UnmarshalError), s)
      | Inr msg \<Rightarrow>
          if msg_Type msg = ''state_sync''
          then (case msg_State msg of
                  Ptr state \<Rightarrow> MergeState fs now visit s (Ptr state)
                | NilPtr \<Rightarrow> (Returned None, s))
          else (Returned None, s))"

section \<open>Join tokens (package security)\<close>

text \<open>
  The token manager calls three functions of Go's standard library:
  \<open>base64.URLEncoding.DecodeString\<close>, \<open>sha256.Sum256\<close> and \<open>hex.EncodeToString\<close>. They
  are written out here, from RFC 4648 (with Go's rule that line breaks are skipped and
  padding is required) and FIPS 180-4. A byte is an \<open>8 word\<close>.
\<close>

type_synonym byte = "8 word"

definition b64value :: "char \<Rightarrow> nat option" where
  "b64value c =
     (let n = (of_char c :: nat)
      in if 65 \<le> n \<and> n \<le> 90 then Some (n - 65)
         else if 97 \<le> n \<and> n \<le> 122 then Some (n - 71)
         else if 48 \<le> n \<and> n \<le> 57 then Some (n + 4)
         else if c = CHR ''-'' then Some 62
         else if c = CHR ''_'' then Some 63
         else None)"

fun decodeQuanta :: "string \<Rightarrow> byte list option" where
  "decodeQuanta [] = Some []"
| "decodeQuanta (a # b # c # d # rest) =
     (case (b64value a, b64value b) of
        (Some v0, Some v1) \<Rightarrow>
          (if c = CHR ''='' then
             (if d = CHR ''='' \<and> rest = [] then Some [of_nat (v0 * 4 + v1 div 16)] else None)
           else
             (case b64value c of
                None \<Rightarrow> None
              | Some v2 \<Rightarrow>
                  (if d = CHR ''='' then
                     (if rest = []
                      then Some [of_nat (v0 * 4 + v1 div 16), of_nat ((v1 mod 16) * 16 + v2 div 4)]
                      else None)
                   else
                     (case b64value d of
                        None \<Rightarrow> None
                      | Some v3 \<Rightarrow>
                          (case decodeQuanta rest of
                             None \<Rightarrow> None
                           | Some bytes \<Rightarrow>
                               Some (of_nat (v0 * 4 + v1 div 16) #
                                     of_nat ((v1 mod 16) * 16 + v2 div 4) #
                                     of_nat ((v2 mod 4) * 64 + v3) # bytes))))))
      | _ \<Rightarrow> None)"
| "decodeQuanta _ = None"

definition DecodeString :: "string \<Rightarrow> byte list option" where
  "DecodeString s = decodeQuanta (filter (\<lambda>c. c \<noteq> CHR 0x0A \<and> c \<noteq> CHR 0x0D) s)"

definition hexDigit :: "nat \<Rightarrow> char" where
  "hexDigit n = ''0123456789abcdef'' ! (n mod 16)"

definition EncodeToString :: "byte list \<Rightarrow> string" where
  "EncodeToString bytes = concat (map (\<lambda>b. [hexDigit (unat b div 16), hexDigit (unat b)]) bytes)"

definition Ch :: "32 word \<Rightarrow> 32 word \<Rightarrow> 32 word \<Rightarrow> 32 word" where
  "Ch x y z = xor (and x y) (and (not x) z)"

definition Maj :: "32 word \<Rightarrow> 32 word \<Rightarrow> 32 word \<Rightarrow> 32 word" where
  "Maj x y z = xor (xor (and x y) (and x z)) (and y z)"

definition Sigma0 :: "32 word \<Rightarrow> 32 word" where
  "Sigma0 x = xor (xor (word_rotr 2 x) (word_rotr 13 x)) (word_rotr 22 x)"

definition Sigma1 :: "32 word \<Rightarrow> 32 word" where
  "Sigma1 x = xor (xor (word_rotr 6 x) (word_rotr 11 x)) (word_rotr 25 x)"

definition sigma0 :: "32 word \<Rightarrow> 32 word" where
  "sigma0 x = xor (xor (word_rotr 7 x) (word_rotr 18 x)) (drop_bit 3 x)"

definition sigma1 :: "32 word \<Rightarrow> 32 word" where
  "sigma1 x = xor (xor (word_rotr 17 x) (word_rotr 19 x)) (drop_bit 10 x)"

text \<open>
  The round constants and the initial hash value are, as the standard defines them, the
  first 32 bits of the fractional parts of the cube roots of the first 64 primes and of
  the square roots of the first 8 primes. \<open>iroot k b r n\<close> refines \<open>r\<close> bit by bit, from
  bit \<open>b - 1\<close> down, to the largest number whose \<open>k\<close>-th power is at most \<open>n\<close>.
\<close>

fun iroot :: "nat \<Rightarrow> nat \<Rightarrow> int \<Rightarrow> int \<Rightarrow> int" where
  "iroot k 0 r n = r"
| "iroot k (Suc b) r n = (if (r + 2 ^ b) ^ k \<le> n then iroot k b (r + 2 ^ b) n else iroot k b r n)"

definition firstPrimes :: "nat list" where
  "firstPrimes = filter (\<lambda>n. list_all (\<lambda>d. n mod d \<noteq> 0) [2..<n]) [2..<312]"

definition K256 :: "32 word list" where
  "K256 = map (\<lambda>p. word_of_int (iroot 3 36 0 (int p * 2 ^ 96))) firstPrimes"

definition H256 :: "32 word list" where
  "H256 = map (\<lambda>p. word_of_int (iroot 2 36 0 (int p * 2 ^ 64))) (take 8 firstPrimes)"

definition be32 :: "byte list \<Rightarrow> 32 word" where
  "be32 bs = foldl (\<lambda>w b. w * 256 + ucast b) 0 bs"

fun words32 :: "byte list \<Rightarrow> 32 word list" where
  "words32 (a # b # c # d # rest) = be32 [a, b, c, d] # words32 rest"
| "words32 _ = []"

definition bytes32 :: "32 word \<Rightarrow> byte list" where
  "bytes32 w = [ucast (drop_bit 24 w), ucast (drop_bit 16 w), ucast (drop_bit 8 w), ucast w]"

definition pad :: "byte list \<Rightarrow> byte list" where
  "pad msg =
     msg @ [0x80] @ replicate ((119 - length msg mod 64) mod 64) 0 @
     [ucast (drop_bit 56 (word_of_nat (8 * length msg) :: 64 word)),
      ucast (drop_bit 48 (word_of_nat (8 * length msg) :: 64 word)),
      ucast (drop_bit 40 (word_of_nat (8 * length msg) :: 64 word)),
      ucast (drop_bit 32 (word_of_nat (8 * length msg) :: 64 word)),
      ucast (drop_bit 24 (word_of_nat (8 * length msg) :: 64 word)),
      ucast (drop_bit 16 (word_of_nat (8 * length msg) :: 64 word)),
      ucast (drop_bit 8 (word_of_nat (8 * length msg) :: 64 word)),
      ucast (word_of_nat (8 * length msg) :: 64 word)]"

fun schedule :: "nat \<Rightarrow> 32 word list \<Rightarrow> 32 word list" where
  "schedule 0 w = w"
| "schedule (Suc n) w =
     (let t = length w
      in schedule n
           (w @ [sigma1 (w ! (t - 2)) + w ! (t - 7) + sigma0 (w ! (t - 15)) + w ! (t - 16)]))"

fun round256 :: "32 word list \<Rightarrow> 32 word \<times> 32 word \<Rightarrow> 32 word list" where
  "round256 [a, b, c, d, e, f, g, h] (k, w) =
     (let T1 = h + Sigma1 e + Ch e f g + k + w;
          T2 = Sigma0 a + Maj a b c
      in [T1 + T2, a, b, c, d + T1, e, f, g])"
| "round256 st (k, w) = st"

definition compress :: "32 word list \<Rightarrow> 32 word list \<Rightarrow> 32 word list" where
  "compress hs block =
     map2 (+) hs (foldl round256 hs (zip K256 (schedule 48 block)))"

fun blocks :: "nat \<Rightarrow> 32 word list \<Rightarrow> 32 word list list" where
  "blocks 0 ws = []"
| "blocks (Suc n) ws = take 16 ws # blocks n (drop 16 ws)"

definition Sum256 :: "byte list \<Rightarrow> byte list" where
  "Sum256 msg =
     (let ws = words32 (pad msg)
      in concat (map bytes32 (foldl compress H256 (blocks (length ws div 16) ws))))"

record Token =
  tok_Value :: string
  tok_Hash :: string
  tok_CreatedAt :: time
  tok_ExpiresAt :: "time option"

text \<open>
  \<open>TokenManager.tokens\<close> is a Go map from token text to \<open>*Token\<close>. The code looks keys
  up, ranges over the values and takes the length: an association list with distinct keys.
\<close>

record TokenManager =
  tokens :: "(string \<times> Token) list"
  secret :: "byte list"

text \<open>
  \<open>NewTokenManager\<close> replaces a \<open>nil\<close> or empty secret by a buffer of 32 bytes that it
  hands to \<open>rand.Read\<close>; \<open>rnd i\<close> is byte \<open>i\<close> of the buffer afterwards.
\<close>

definition NewTokenManager :: "(nat \<Rightarrow> byte) \<Rightarrow> byte list \<Rightarrow> TokenManager" where
  "NewTokenManager rnd sec =
     \<lparr>tokens = [], secret = (if length sec = 0 then map rnd [0..<32] else sec)\<rparr>"

definition ValidateToken :: "TokenManager \<Rightarrow> time \<Rightarrow> string \<Rightarrow> bool \<times> TokenManager" where
  "ValidateToken tm now token =
     (case map_of (tokens tm) token of
        None \<Rightarrow>
          (case DecodeString token of
             None \<Rightarrow> (False, tm)
           | Some tokenBytes \<Rightarrow>
               (let hashStr = EncodeToString (Sum256 (secret tm @ tokenBytes))
                in if list_ex (\<lambda>(k, storedToken). tok_Hash storedToken = hashStr) (tokens tm)
                   then (True, tm)
                   else if length (tokens tm) = 0 then (True, tm)
                   else (False, tm)))
      | Some t \<Rightarrow>
          (case tok_ExpiresAt t of
             None \<Rightarrow> (True, tm)
           | Some expiresAt \<Rightarrow>
               if now > expiresAt
               then (False, tm\<lparr>tokens := AList.delete token (tokens tm)\<rparr>)
               else (True, tm)))"

definition RevokeToken :: "TokenManager \<Rightarrow> string \<Rightarrow> TokenManager" where
  "RevokeToken tm token = tm\<lparr>tokens := AList.delete token (tokens tm)\<rparr>"

section \<open>Gossip receive path (packages discovery, storage and main)\<close>

text \<open>
  A decoded JSON value is what \<open>json.Unmarshal\<close> puts into an \<open>interface{}\<close>. The only
  operation the code applies to a number is the conversion \<open>int32(\<cdot>)\<close> of the port, so a
  number is represented by the value this conversion gives for it.
\<close>

datatype json =
    JNull
  | JBool bool
  | JNumber int
  | JString string
  | JArray "json list"
  | JObject "(string \<times> json) list"

text \<open>
  The unchecked type assertions \<open>update[k].(string)\<close>, \<open>.(float64)\<close> and \<open>.(bool)\<close>: they
  panic when the key is absent (the value is \<open>nil\<close>) or holds a value of another type.
\<close>

definition assertString :: "json option \<Rightarrow> string outcome" where
  "assertString v = (case v of Some (JString s) \<Rightarrow> Returned s | _ \<Rightarrow> Panic)"

definition assertFloat64 :: "json option \<Rightarrow> int outcome" where
  "assertFloat64 v = (case v of Some (JNumber n) \<Rightarrow> Returned n | _ \<Rightarrow> Panic)"

definition assertBool :: "json option \<Rightarrow> bool outcome" where
  "assertBool v = (case v of Some (JBool b) \<Rightarrow> Returned b | _ \<Rightarrow> Panic)"

definition registerEndpoint :: "registry \<Rightarrow> string \<Rightarrow> string \<Rightarrow> ServiceEndpoint \<Rightarrow> registry" where
  "registerEndpoint reg key eid endpoint =
     reg(key \<mapsto> AList.update eid endpoint (case reg key of None \<Rightarrow> [] | Some endpoints \<Rightarrow> endpoints))"

definition deregisterEndpoint :: "registry \<Rightarrow> string \<Rightarrow> string \<Rightarrow> registry" where
  "deregisterEndpoint reg key eid =
     (case reg key of
        None \<Rightarrow> reg
      | Some endpoints \<Rightarrow>
          (let endpoints' = AList.delete eid endpoints
           in if length endpoints' = 0 then reg(key := None) else reg(key \<mapsto> endpoints')))"

text \<open>
  \<open>HandleServiceUpdate\<close> on the result of \<open>json.Unmarshal(message, &update)\<close>: \<open>None\<close> when
  the payload does not decode into a \<open>map[string]interface{}\<close>, else the map.
\<close>

definition HandleServiceUpdate ::
  "registry \<Rightarrow> time \<Rightarrow> (string \<rightharpoonup> json) option \<Rightarrow> (error option \<times> registry) outcome" where
  "HandleServiceUpdate reg now decoded =
     (case decoded of
        None \<Rightarrow> Returned (Some UnmarshalError, reg)
      | Some update \<Rightarrow>
          if update ''type'' \<noteq> Some (JString ''service_update'') then Returned (None, reg)
          else
            bindO (assertString (update ''action'')) (\<lambda>action.
            bindO (assertString (update ''serviceName'')) (\<lambda>serviceName.
            bindO (assertString (update ''namespace'')) (\<lambda>namespace.
            bindO (assertString (update ''podID'')) (\<lambda>podID.
            bindO (assertString (update ''podName'')) (\<lambda>podName.
            bindO (assertString (update ''nodeName'')) (\<lambda>nodeName.
            bindO (assertString (update ''address'')) (\<lambda>address.
            bindO (assertFloat64 (update ''port'')) (\<lambda>port.
            bindO (assertBool (update ''healthy'')) (\<lambda>healthy.
              (let key = serviceKey serviceName namespace;
                   eid = endpointID namespace serviceName podID;
                   endpoint = \<lparr>ServiceName = serviceName, Namespace = namespace,
                               PodID = podID, PodName = podName, NodeName = nodeName,
                               Address = address, Port = port, Healthy = healthy,
                               LastSeen = now\<rparr>
               in if action = ''register''
                  then Returned (None, registerEndpoint reg key eid endpoint)
                  else if action = ''deregister''
                  then Returned (None, deregisterEndpoint reg key eid)
                  else Returned (None, reg))))))))))))"

text \<open>
  The handler that \<open>main\<close> registers passes the same bytes to both decoders, drops both
  errors and returns \<open>nil\<close>. A payload is given by its two decodings. Nothing between the
  gossip library and the handler recovers from a panic, in either decoder.
\<close>

record Payload =
  as_map :: "(string \<rightharpoonup> json) option"
  as_sync :: "error + StateSyncMessage"

definition messageHandler ::
  "io \<Rightarrow> time \<Rightarrow> string list \<Rightarrow> registry \<times> Storage \<Rightarrow> Payload \<Rightarrow>
   (registry \<times> Storage) outcome" where
  "messageHandler fs now visit st payload =
     (case HandleServiceUpdate (fst st) now (as_map payload) of
        Panic \<Rightarrow> Panic
      | Returned (err, reg') \<Rightarrow>
          (case HandleStateSyncMessage fs now visit (snd st) (as_sync payload) of
             (Panic, store') \<Rightarrow> Panic
           | (Returned err', store') \<Rightarrow> Returned (reg', store')))"

section \<open>Workload control (package api, with the scheduler)\<close>

record Node =
  node_Name :: string
  node_Address :: string
  node_Status :: string
  node_Labels :: labels

datatype runtime_call = CallCreatePod string | CallStartPod string | CallStopPod string
  | CallRemovePod string

text \<open>
  The state the API layer works on. \<open>heap\<close> holds the Pod objects; a \<open>*Pod\<close> is the index
  of its object, and every pointer the code stores comes from \<open>ExtractPodFromTemplate\<close>,
  so it points into the heap. \<open>sched_pods\<close> is \<open>Scheduler.pods\<close> and \<open>nodes\<close> the node map
  of the cluster, both in the order a \<open>range\<close> loop visits them. \<open>ingress_rules\<close> is the
  rule table of the ingress controller, \<open>None\<close> when the agent runs without one (the
  pointer \<open>a.ingress\<close> is \<open>nil\<close>). \<open>api_storage\<close> is the Store that \<open>main\<close> hands to the
  API layer and that the recovery code reaches as \<open>a.storage\<close>. \<open>runtime_calls\<close> and \<open>broadcasts\<close> record the calls
  made to the container runtime and the updates handed to \<open>cluster.Broadcast\<close>;
  \<open>encrypt_fails\<close> says that the cluster encrypts its messages and that the encryption
  of the next message returns an error.
\<close>

record API =
  heap :: "Pod list"
  api_deployments :: "string \<rightharpoonup> Deployment"
  api_services :: "string \<rightharpoonup> Service"
  api_ingresses :: "string \<rightharpoonup> Ingress"
  sched_pods :: "(string \<times> addr) list"
  api_discovery :: registry
  ingress_rules :: "(string \<rightharpoonup> Ingress) option"
  api_storage :: Storage
  nodes :: "(string \<times> Node) list"
  localNodeName :: string
  runtime_calls :: "runtime_call list"
  broadcasts :: "(string \<times> ServiceEndpoint) list"
  encrypt_fails :: bool

text \<open>
  What the environment supplies while one replica is created: the id from \<open>generateID\<close>,
  the clock, the number \<open>rand.Intn\<close> draws, and the answers of the container runtime.
\<close>

record replica_env =
  gen_id :: string
  unix_now :: int
  pick :: nat
  create_result :: "error + string"
  start_ok :: bool
  pod_status :: string

record K8sDeployment =
  k_Name :: string
  k_Namespace :: string
  k_Replicas :: "int option"
  k_Template :: PodTemplateSpec
  k_Labels :: labels
  k_Selector :: "labels option"

definition label_at :: "labels \<Rightarrow> string \<Rightarrow> string" where
  "label_at ls key = (case map_of ls key of None \<Rightarrow> [] | Some v \<Rightarrow> v)"

definition matchesSelector :: "labels \<Rightarrow> labels \<Rightarrow> bool" where
  "matchesSelector ls selector = list_all (\<lambda>(key, value). label_at ls key = value) selector"

text \<open>\<open>ParseDeployment\<close> dereferences \<open>Spec.Replicas\<close>, a pointer that is \<open>nil\<close> when the manifest gives no replica count.\<close>

definition ParseDeployment :: "K8sDeployment \<Rightarrow> (error + Deployment) outcome" where
  "ParseDeployment d =
     (case k_Replicas d of
        None \<Rightarrow> Panic
      | Some n \<Rightarrow>
          Returned (Inr \<lparr>dep_Name = k_Name d, dep_Namespace = k_Namespace d, dep_Replicas = n,
                         dep_DesiredReplicas = n, dep_Pods = [], dep_Template = k_Template d,
                         dep_Labels = k_Labels d, dep_Selector = k_Selector d\<rparr>))"

definition ExtractPodFromTemplate :: "PodTemplateSpec \<Rightarrow> string \<Rightarrow> string \<Rightarrow> Pod" where
  "ExtractPodFromTemplate template namespace podName =
     (let pod = \<lparr>pod_ID = [], pod_Name = podName, pod_Namespace = namespace, pod_NodeName = [],
                 pod_State = PodStatePending, pod_Image = [], pod_Labels = tmpl_Labels template,
                 pod_Annotations = tmpl_Annotations template, pod_Ports = [], pod_Env = [],
                 pod_Volumes = [], pod_NodeSelector = [], pod_CreatedAt = 0\<rparr>;
          pod1 = (case tmpl_Containers template of
                    [] \<Rightarrow> pod
                  | container # _ \<Rightarrow>
                      pod\<lparr>pod_Image := Image container, pod_Ports := Ports container,
                          pod_Env := Env container, pod_Volumes := VolumeMounts container\<rparr>)
      in pod1\<lparr>pod_NodeSelector := tmpl_NodeSelector template\<rparr>)"

text \<open>
  \<open>findNodeBySelector\<close> returns the first node with matching labels in the order in which
  \<open>GetNodes\<close> lists the node map, an order Go chooses anew at every call: any matching
  node can be the first. Which one it is, is left to the environment, as is the node that
  \<open>rand.Intn\<close> draws: the number \<open>n\<close> selects among the candidates.
\<close>

definition nodeMatches :: "labels \<Rightarrow> Node \<Rightarrow> bool" where
  "nodeMatches selector node =
     list_all (\<lambda>(key, value). label_at (node_Labels node) key = value) selector"

definition findNodeBySelector :: "(string \<times> Node) list \<Rightarrow> nat \<Rightarrow> labels \<Rightarrow> Node option" where
  "findNodeBySelector ns n selector =
     (case filter (nodeMatches selector) (map snd ns) of
        [] \<Rightarrow> None
      | node # rest \<Rightarrow> Some ((node # rest) ! (n mod length (node # rest))))"

text \<open>The node \<open>SchedulePod\<close> chooses for a pod with the given node selector, if any.\<close>

definition chooseNode :: "(string \<times> Node) list \<Rightarrow> nat \<Rightarrow> labels \<Rightarrow> Node option" where
  "chooseNode ns n selector =
     (if length selector > 0 then findNodeBySelector ns n selector
      else if length ns = 0 then None
      else Some (snd (ns ! (n mod length ns))))"

definition SchedulePod :: "API \<Rightarrow> nat \<Rightarrow> addr \<Rightarrow> (error + string) \<times> API" where
  "SchedulePod a n p =
     (case chooseNode (nodes a) n (pod_NodeSelector (heap a ! p)) of
        None \<Rightarrow> (Inl ScheduleError, a)
      | Some node \<Rightarrow>
          (Inr (node_Name node),
           a\<lparr>heap := (heap a)[p := (heap a ! p)\<lparr>pod_NodeName := node_Name node\<rparr>],
             sched_pods := AList.update (pod_ID (heap a ! p)) p (sched_pods a)\<rparr>))"

definition UpdatePodState :: "API \<Rightarrow> string \<Rightarrow> string \<Rightarrow> API" where
  "UpdatePodState a podID state =
     (case map_of (sched_pods a) podID of
        None \<Rightarrow> a
      | Some p \<Rightarrow> a\<lparr>heap := (heap a)[p := (heap a ! p)\<lparr>pod_State := state\<rparr>]\<rparr>)"

fun digits :: "nat \<Rightarrow> string" where
  "digits n = (if n < 10 then [''0123456789'' ! n] else digits (n div 10) @ [''0123456789'' ! (n mod 10)])"

definition itoa :: "int \<Rightarrow> string" where
  "itoa i = (if i < 0 then CHR ''-'' # digits (nat (- i)) else digits (nat i))"

text \<open>
  The body of the loop of \<open>applyDeployment\<close> for replica \<open>i\<close>, up to and including the
  \<open>append\<close>. \<open>Some err\<close> is the error the function returns with. \<open>dep\<close> is the
  Deployment object, which \<open>a.deployments[key]\<close> points to: the \<open>append\<close> to its pod list
  is written to the map as well.
\<close>

definition createReplica ::
  "replica_env \<Rightarrow> string \<Rightarrow> Deployment \<Rightarrow> int \<Rightarrow> API \<Rightarrow> error option \<times> API \<times> Deployment" where
  "createReplica e key dep i a =
     (let podName = dep_Name dep @ ''-'' @ itoa i;
          pod = (ExtractPodFromTemplate (dep_Template dep) (dep_Namespace dep) podName)
                  \<lparr>pod_ID := gen_id e, pod_CreatedAt := unix_now e\<rparr>;
          p = length (heap a);
          a1 = a\<lparr>heap := heap a @ [pod]\<rparr>;
          dep' = dep\<lparr>dep_Pods := dep_Pods dep @ [p]\<rparr>
      in case SchedulePod a1 (pick e) p of
           (Inl err, a2) \<Rightarrow> (Some ScheduleError, a2, dep)
         | (Inr nodeName, a2) \<Rightarrow>
             if nodeName = localNodeName a2
             then
               (let a3 = a2\<lparr>runtime_calls := runtime_calls a2 @ [CallCreatePod podName]\<rparr>
                in case create_result e of
                     Inl err \<Rightarrow> (Some CreatePodError, a3, dep)
                   | Inr containerID \<Rightarrow>
                       (let a4 = a3\<lparr>heap := (heap a3)[p := (heap a3 ! p)\<lparr>pod_ID := containerID\<rparr>],
                                   runtime_calls := runtime_calls a3 @ [CallStartPod containerID]\<rparr>
                        in if \<not> start_ok e then (Some StartPodError, a4, dep)
                           else
                             (let a5 = UpdatePodState a4 containerID (pod_status e)
                              in (None,
                                  a5\<lparr>api_deployments := (api_deployments a5)(key \<mapsto> dep')\<rparr>,
                                  dep'))))
             else (None, a2\<lparr>api_deployments := (api_deployments a2)(key \<mapsto> dep')\<rparr>, dep'))"

text \<open>The loop \<open>for i := int32(0); i < dep.DesiredReplicas; i++\<close>.\<close>

function createPods ::
  "(nat \<Rightarrow> replica_env) \<Rightarrow> string \<Rightarrow> Deployment \<Rightarrow> int \<Rightarrow> API \<Rightarrow> error option \<times> API" where
  "createPods env key dep i a =
     (if i < dep_DesiredReplicas dep
      then (case createReplica (env (nat i)) key dep i a of
              (Some err, a', dep') \<Rightarrow> (Some err, a')
            | (None, a', dep') \<Rightarrow> createPods env key dep' (i + 1) a')
      else (None, a))"
  by pat_completeness auto
termination
proof (relation "measure (\<lambda>(env, key, dep, i, a). nat (dep_DesiredReplicas dep - i))")
  show "wf (measure (\<lambda>(env, key, dep, i, a). nat (dep_DesiredReplicas dep - i)))"
    by simp
next
  fix env :: "nat \<Rightarrow> replica_env" and key dep i a x1 x2 a' and dep' :: Deployment
  assume lt: "i < dep_DesiredReplicas dep"
    and r: "(x1, x2) = createReplica (env (nat i)) key dep i a" "(a', dep') = x2" "x1 = None"
  have "dep_DesiredReplicas dep' = dep_DesiredReplicas dep"
    using r by (auto simp: createReplica_def Let_def split: prod.splits sum.splits if_splits)
  with lt show "((env, key, dep', i + 1, a'), env, key, dep, i, a)
          \<in> measure (\<lambda>(env, key, dep, i, a). nat (dep_DesiredReplicas dep - i))"
    by simp
qed

definition applyDeployment ::
  "(nat \<Rightarrow> replica_env) \<Rightarrow> API \<Rightarrow> K8sDeployment \<Rightarrow> (error option \<times> API) outcome" where
  "applyDeployment env a deployment =
     (case ParseDeployment deployment of
        Panic \<Rightarrow> Panic
      | Returned (Inl err) \<Rightarrow> Returned (Some err, a)
      | Returned (Inr dep) \<Rightarrow>
          (let key = storeKey (dep_Namespace dep) (dep_Name dep);
               a1 = a\<lparr>api_deployments := (api_deployments a)(key \<mapsto> dep)\<rparr>
           in Returned (createPods env key dep 0 a1)))"

text \<open>
  \<open>Cluster.Broadcast\<close> returns the error of \<open>Encrypt\<close> when the cluster has an encryptor
  and the encryption fails. In every other case it calls
  \<open>memberlist.SendBestEffort(nil, sendMsg)\<close>, and the gossip library reads the address of
  the receiving node through the pointer it is given: the call panics.
\<close>

definition Broadcast :: "API \<Rightarrow> string \<times> ServiceEndpoint \<Rightarrow> (error option \<times> API) outcome" where
  "Broadcast a update =
     (if encrypt_fails a
      then Returned (Some EncryptError, a\<lparr>broadcasts := broadcasts a @ [update]\<rparr>)
      else Panic)"

text \<open>
  \<open>DeregisterService\<close>: only an endpoint that is registered is broadcast and then removed;
  an error of the broadcast is logged, a panic in it leaves the endpoint in the registry.
\<close>

definition DeregisterService :: "API \<Rightarrow> Service \<Rightarrow> Pod \<Rightarrow> API outcome" where
  "DeregisterService a service pod =
     (let key = serviceKey (svc_Name service) (svc_Namespace service);
          eid = endpointID (svc_Namespace service) (svc_Name service) (pod_ID pod)
      in case api_discovery a key of
           None \<Rightarrow> Returned a
         | Some endpoints \<Rightarrow>
             (case map_of endpoints eid of
                None \<Rightarrow> Returned a
              | Some endpoint \<Rightarrow>
                  (case Broadcast a (''deregister'', endpoint) of
                     Panic \<Rightarrow> Panic
                   | Returned (err, a1) \<Rightarrow>
                       Returned (a1\<lparr>api_discovery :=
                                      deregisterEndpoint (api_discovery a1) key eid\<rparr>))))"

text \<open>
  The three parts of \<open>DeleteManifest\<close>. Errors of the runtime are only logged; a panic
  ends the request where it happens.
\<close>

fun removePods :: "API \<Rightarrow> addr list \<Rightarrow> API" where
  "removePods a [] = a"
| "removePods a (p # ps) =
     (let pod = heap a ! p;
          a1 = (if pod_NodeName pod = localNodeName a
                then a\<lparr>runtime_calls := runtime_calls a @
                         [CallStopPod (pod_ID pod), CallRemovePod (pod_ID pod)]\<rparr>
                else a);
          a2 = a1\<lparr>sched_pods := AList.delete (pod_ID pod) (sched_pods a1)\<rparr>
      in removePods a2 ps)"

fun deregisterPods :: "API \<Rightarrow> Service \<Rightarrow> Pod list \<Rightarrow> API outcome" where
  "deregisterPods a svc [] = Returned a"
| "deregisterPods a svc (pod # ps) =
     (if matchesSelector (pod_Labels pod) (svc_Selector svc)
      then (case DeregisterService a svc pod of
              Panic \<Rightarrow> Panic
            | Returned a1 \<Rightarrow> deregisterPods a1 svc ps)
      else deregisterPods a svc ps)"

definition deleteDeploymentPart :: "API \<Rightarrow> string \<Rightarrow> API" where
  "deleteDeploymentPart a key =
     (case api_deployments a key of
        None \<Rightarrow> a
      | Some dep \<Rightarrow>
          (let a1 = removePods a (dep_Pods dep)
           in a1\<lparr>api_deployments := (api_deployments a1)(key := None)\<rparr>))"

definition deleteServicePart :: "API \<Rightarrow> string \<Rightarrow> API outcome" where
  "deleteServicePart a key =
     (case api_services a key of
        None \<Rightarrow> Returned a
      | Some svc \<Rightarrow>
          (case deregisterPods a svc (map (\<lambda>(k, p). heap a ! p) (sched_pods a)) of
             Panic \<Rightarrow> Panic
           | Returned a1 \<Rightarrow> Returned (a1\<lparr>api_services := (api_services a1)(key := None)\<rparr>)))"

definition deleteIngressPart :: "API \<Rightarrow> string \<Rightarrow> API outcome" where
  "deleteIngressPart a key =
     (case api_ingresses a key of
        None \<Rightarrow> Returned a
      | Some ing \<Rightarrow>
          (case ingress_rules a of
             None \<Rightarrow> Panic
           | Some rules \<Rightarrow>
               Returned (a\<lparr>ingress_rules := Some (rules(key := None)),
                           api_ingresses := (api_ingresses a)(key := None)\<rparr>)))"

definition DeleteManifest :: "API \<Rightarrow> string \<Rightarrow> string \<Rightarrow> API outcome" where
  "DeleteManifest a namespace name =
     (let key = storeKey namespace name
      in bindO (deleteServicePart (deleteDeploymentPart a key) key)
           (\<lambda>a2. deleteIngressPart a2 key))"

text \<open>
  Replica creation fails for environment \<open>e\<close> when no node can be chosen, or when the
  chosen node is the local one and the runtime fails to create or to start the container.
\<close>

definition replicaFails :: "(string \<times> Node) list \<Rightarrow> string \<Rightarrow> labels \<Rightarrow> replica_env \<Rightarrow> bool" where
  "replicaFails ns localName selector e =
     (case chooseNode ns (pick e) selector of
        None \<Rightarrow> True
      | Some node \<Rightarrow>
          node_Name node = localName \<and> (isl (create_result e) \<or> \<not> start_ok e))"

text \<open>
  The error of a failing replica: that of the scheduler, of \<open>CreatePod\<close> or of
  \<open>StartPod\<close>, in the order in which \<open>applyDeployment\<close> meets them.
\<close>

definition replicaError :: "(string \<times> Node) list \<Rightarrow> labels \<Rightarrow> replica_env \<Rightarrow> error" where
  "replicaError ns selector e =
     (case chooseNode ns (pick e) selector of
        None \<Rightarrow> ScheduleError
      | Some node \<Rightarrow> if isl (create_result e) then CreatePodError else StartPodError)"

definition podCount :: "API \<Rightarrow> string \<Rightarrow> nat option" where
  "podCount a key = map_option (\<lambda>dep. length (dep_Pods dep)) (api_deployments a key)"

text \<open>What an apply leaves behind: the error returned, the number of pods of the Deployment, the calls made to the runtime.\<close>

definition apply_error :: "(nat \<Rightarrow> replica_env) \<Rightarrow> API \<Rightarrow> K8sDeployment \<Rightarrow> error option outcome" where
  "apply_error env a d = map_outcome fst (applyDeployment env a d)"

definition apply_pods :: "(nat \<Rightarrow> replica_env) \<Rightarrow> API \<Rightarrow> K8sDeployment \<Rightarrow> nat option outcome" where
  "apply_pods env a d =
     map_outcome (\<lambda>r. podCount (snd r) (storeKey (k_Namespace d) (k_Name d))) (applyDeployment env a d)"

definition apply_calls :: "(nat \<Rightarrow> replica_env) \<Rightarrow> API \<Rightarrow> K8sDeployment \<Rightarrow> runtime_call list outcome" where
  "apply_calls env a d = map_outcome (\<lambda>r. runtime_calls (snd r)) (applyDeployment env a d)"

section \<open>Concrete inputs\<close>

text \<open>
  A case table that knows the letters of the Latin-1 supplement only (\<open>U+00C0\<close> to
  \<open>U+00DE\<close> without the multiplication sign); the names of the inputs below are ASCII, for
  which \<open>ToLower\<close> never consults the table.
\<close>

definition latin1 :: case_table where
  "latin1 r = (if 0xC0 \<le> r \<and> r \<le> 0xDE \<and> r \<noteq> 0xD7 then r + 32 else r)"

definition accept_all :: "RR \<Rightarrow> bool" where
  "accept_all rr = True"

definition ep1 :: ServiceEndpoint where
  "ep1 = \<lparr>ServiceName = ''postgres'', Namespace = ''default'', PodID = ''p1'',
          PodName = ''postgres-0'', NodeName = ''node-1'', Address = ''10.0.1.1'',
          Port = 5432, Healthy = True, LastSeen = 0\<rparr>"

definition ep2 :: ServiceEndpoint where
  "ep2 = \<lparr>ServiceName = ''postgres'', Namespace = ''default'', PodID = ''p2'',
          PodName = ''postgres-1'', NodeName = ''node-2'', Address = ''10.0.1.2'',
          Port = 6432, Healthy = True, LastSeen = 0\<rparr>"

definition demo_registry :: registry where
  "demo_registry =
     [''postgres.default'' \<mapsto> [(''default-postgres-p1'', ep1), (''default-postgres-p2'', ep2)]]"

definition demo_server :: Server where
  "demo_server = \<lparr>discovery = demo_registry, clusterDomain = ''cluster.local'',
                  upstreamDNS = [''8.8.8.8:53'', ''8.8.4.4:53''],
                  whitelist = SetWhitelist latin1 True [''example.com'']\<rparr>"

definition plain_question :: Question where
  "plain_question = \<lparr>Name = ''postgres.default.cluster.local.'', Qtype = TypeA\<rparr>"

definition svc_question :: Question where
  "svc_question = \<lparr>Name = ''postgres.default.svc.cluster.local.'', Qtype = TypeA\<rparr>"

definition srv_question :: Question where
  "srv_question = \<lparr>Name = ''_sql._tcp.postgres.default.cluster.local.'', Qtype = TypeSRV\<rparr>"

definition empty_reply :: Msg where
  "empty_reply = \<lparr>Rcode = RcodeSuccess, Authoritative = True, Questions = [],
                  Answer = [], Extra = []\<rparr>"

definition www_query :: Msg where
  "www_query = \<lparr>Rcode = RcodeSuccess, Authoritative = False,
                Questions = [\<lparr>Name = ''www.example.com.'', Qtype = TypeA\<rparr>],
                Answer = [], Extra = []\<rparr>"

definition evil_query :: Msg where
  "evil_query = \<lparr>Rcode = RcodeSuccess, Authoritative = False,
                 Questions = [\<lparr>Name = ''evil.net.'', Qtype = TypeA\<rparr>],
                 Answer = [], Extra = []\<rparr>"

definition cname_response :: Msg where
  "cname_response = \<lparr>Rcode = RcodeSuccess, Authoritative = False,
                     Questions = [\<lparr>Name = ''www.example.com.'', Qtype = TypeA\<rparr>],
                     Answer = [RR_CNAME ''www.example.com.'' 300 ''cdn.evil.net.'',
                               RR_A ''cdn.evil.net.'' 300 ''203.0.113.7''],
                     Extra = []\<rparr>"

definition good_response :: Msg where
  "good_response = \<lparr>Rcode = RcodeSuccess, Authoritative = False,
                    Questions = [\<lparr>Name = ''www.example.com.'', Qtype = TypeA\<rparr>],
                    Answer = [RR_A ''www.example.com.'' 300 ''93.184.216.34''],
                    Extra = []\<rparr>"

text \<open>
  A network where the first upstream times out over UDP and answers over TCP with a CNAME
  that leaves the whitelist, and the second upstream answers over UDP.
\<close>

definition demo_exchange :: exchange where
  "demo_exchange i c u =
     (if i = 0 then (if Net c = ''udp'' then Inl TransportError else Inr (Some cname_response))
      else Inr (Some good_response))"

definition dead_exchange :: exchange where
  "dead_exchange i c u = Inl TransportError"

definition demo_pod :: "string \<Rightarrow> int \<Rightarrow> Pod" where
  "demo_pod name created =
     \<lparr>pod_ID = name, pod_Name = name, pod_Namespace = ''default'', pod_NodeName = ''node-1'',
      pod_State = ''Running'', pod_Image = ''nginx:latest'', pod_Labels = [(''app'', ''nginx'')],
      pod_Annotations = [], pod_Ports = [], pod_Env = [], pod_Volumes = [],
      pod_NodeSelector = [], pod_CreatedAt = created\<rparr>"

definition demo_template :: PodTemplateSpec where
  "demo_template =
     \<lparr>tmpl_Labels = [(''app'', ''nginx'')], tmpl_Annotations = [],
      tmpl_Containers = [\<lparr>Image = ''nginx:latest'', Ports = [], Env = [], VolumeMounts = []\<rparr>],
      tmpl_NodeSelector = []\<rparr>"

definition demo_deployment :: "int \<Rightarrow> Deployment" where
  "demo_deployment n =
     \<lparr>dep_Name = ''nginx'', dep_Namespace = ''default'', dep_Replicas = n,
      dep_DesiredReplicas = n, dep_Pods = [], dep_Template = demo_template,
      dep_Labels = [], dep_Selector = Some [(''app'', ''nginx'')]\<rparr>"

definition local_store :: Storage where
  "local_store =
     \<lparr>deployments = [''default/nginx'' \<mapsto> Ptr (demo_deployment 3)], services = Map.empty,
      ingresses = Map.empty,
      pods = [''default/nginx-0'' \<mapsto> Ptr (demo_pod ''nginx-0'' 100),
              ''default/nginx-1'' \<mapsto> Ptr (demo_pod ''nginx-1'' 100),
              ''default/nginx-2'' \<mapsto> Ptr (demo_pod ''nginx-2'' 100)],
      lastModified = 1000, state_json = None, state_json_tmp = None\<rparr>"

definition incoming_state :: "time \<Rightarrow> ClusterState" where
  "incoming_state t =
     \<lparr>cs_Deployments = [''default/nginx'' \<mapsto> Ptr (demo_deployment 5)], cs_Services = Map.empty,
      cs_Ingresses = Map.empty,
      cs_Pods = [''default/nginx-0'' \<mapsto> Ptr (demo_pod ''nginx-0'' 200),
                 ''default/nginx-1'' \<mapsto> Ptr (demo_pod ''nginx-1'' 50)],
      cs_LastModified = t, cs_Version = 1\<rparr>"

text \<open>
  The payload
  \<open>{"type":"state_sync","state":{"pods":{"default/nginx-0":null},"last_modified":"2026-01-01T00:00:00Z"}}\<close>
  in its two decodings, and the snapshot in it: one pod key, bound to \<open>null\<close>. The
  instant \<open>last_modified\<close> is \<open>t\<close> on the time axis of the model.
\<close>

definition null_pod_state :: "time \<Rightarrow> ClusterState" where
  "null_pod_state t =
     \<lparr>cs_Deployments = Map.empty, cs_Services = Map.empty, cs_Ingresses = Map.empty,
      cs_Pods = [''default/nginx-0'' \<mapsto> NilPtr], cs_LastModified = t, cs_Version = 0\<rparr>"

definition null_pod_sync :: Payload where
  "null_pod_sync =
     \<lparr>as_map = Some [''type'' \<mapsto> JString ''state_sync'',
                      ''state'' \<mapsto> JObject [(''pods'', JObject [(''default/nginx-0'', JNull)]),
                                               (''last_modified'',
                                                JString ''2026-01-01T00:00:00Z'')]],
      as_sync = Inr \<lparr>msg_Type = ''state_sync'', msg_State = Ptr (null_pod_state 2000),
                     msg_Timestamp = 0, msg_NodeName = []\<rparr>\<rparr>"

definition empty_store :: Storage where
  "empty_store =
     \<lparr>deployments = Map.empty, services = Map.empty, ingresses = Map.empty, pods = Map.empty,
      lastModified = 0, state_json = None, state_json_tmp = None\<rparr>"

definition demo_secret :: "byte list" where
  "demo_secret = [0x73, 0x65, 0x63, 0x72, 0x65, 0x74]"

text \<open>What \<open>rand.Read\<close> leaves in the buffer of a manager created without a secret.\<close>

definition demo_random :: "nat \<Rightarrow> byte" where
  "demo_random i = of_nat (7 * i + 1)"

definition demo_token :: Token where
  "demo_token = \<lparr>tok_Value = ''dG9rZW4='', tok_Hash = ''00'', tok_CreatedAt = 0,
                 tok_ExpiresAt = None\<rparr>"

definition demo_manager :: TokenManager where
  "demo_manager = \<lparr>tokens = [(''dG9rZW4='', demo_token)], secret = demo_secret\<rparr>"

definition bare_update :: Payload where
  "bare_update =
     \<lparr>as_map = Some [''type'' \<mapsto> JString ''service_update''],
      as_sync = Inr \<lparr>msg_Type = ''service_update'', msg_State = NilPtr, msg_Timestamp = 0,
                     msg_NodeName = []\<rparr>\<rparr>"

definition wrong_port_update :: Payload where
  "wrong_port_update =
     \<lparr>as_map = Some [''type'' \<mapsto> JString ''service_update'', ''action'' \<mapsto> JString ''register'',
                      ''serviceName'' \<mapsto> JString ''postgres'', ''namespace'' \<mapsto> JString ''default'',
                      ''podID'' \<mapsto> JString ''p3'', ''podName'' \<mapsto> JString ''postgres-2'',
                      ''nodeName'' \<mapsto> JString ''node-3'', ''address'' \<mapsto> JString ''10.0.1.3'',
                      ''port'' \<mapsto> JString ''5432'', ''healthy'' \<mapsto> JBool True],
      as_sync = Inr \<lparr>msg_Type = ''service_update'', msg_State = NilPtr, msg_Timestamp = 0,
                     msg_NodeName = []\<rparr>\<rparr>"

definition node1 :: Node where
  "node1 = \<lparr>node_Name = ''node-1'', node_Address = ''10.0.0.1'', node_Status = ''Ready'',
            node_Labels = []\<rparr>"

definition demo_api :: API where
  "demo_api =
     \<lparr>heap = [], api_deployments = Map.empty, api_services = Map.empty,
      api_ingresses = Map.empty, sched_pods = [], api_discovery = Map.empty,
      ingress_rules = None, api_storage = empty_store, nodes = [(''node-1'', node1)],
      localNodeName = ''node-1'', runtime_calls = [], broadcasts = [],
      encrypt_fails = False\<rparr>"

definition demo_manifest :: "int \<Rightarrow> K8sDeployment" where
  "demo_manifest n =
     \<lparr>k_Name = ''nginx'', k_Namespace = ''default'', k_Replicas = Some n,
      k_Template = demo_template, k_Labels = [], k_Selector = Some [(''app'', ''nginx'')]\<rparr>"

text \<open>An environment in which the runtime fails to create the container of replica \<open>k\<close>.\<close>

definition env_failing_at :: "nat \<Rightarrow> nat \<Rightarrow> replica_env" where
  "env_failing_at k i =
     \<lparr>gen_id = ''id-'' @ digits i, unix_now = 1700000000, pick = 0,
      create_result = (if i = k then Inl CreatePodError else Inr (''ctr-'' @ digits i)),
      start_ok = True, pod_status = ''Running''\<rparr>"

text \<open>
  The state after \<open>RecoverDeployments\<close> has rebuilt a Deployment that the Store holds:
  the record is in the map of the API layer and in the Store.
\<close>

definition recovered_deployment :: Deployment where
  "recovered_deployment = (demo_deployment 2)\<lparr>dep_Pods := [0, 1]\<rparr>"

definition recovered_store :: Storage where
  "recovered_store =
     \<lparr>deployments = [''default/nginx'' \<mapsto> Ptr recovered_deployment], services = Map.empty,
      ingresses = Map.empty, pods = Map.empty, lastModified = 1000,
      state_json = Some \<lparr>cs_Deployments = [''default/nginx'' \<mapsto> Ptr recovered_deployment],
                          cs_Services = Map.empty, cs_Ingresses = Map.empty,
                          cs_Pods = Map.empty, cs_LastModified = 1000, cs_Version = 1\<rparr>,
      state_json_tmp = None\<rparr>"

definition recovered_api :: API where
  "recovered_api =
     \<lparr>heap = [demo_pod ''ctr-0'' 100, demo_pod ''ctr-1'' 100],
      api_deployments = [''default/nginx'' \<mapsto> recovered_deployment],
      api_services = Map.empty, api_ingresses = Map.empty,
      sched_pods = [(''id-0'', 0), (''id-1'', 1)], api_discovery = Map.empty,
      ingress_rules = None, api_storage = recovered_store, nodes = [(''node-1'', node1)],
      localNodeName = ''node-1'', runtime_calls = [], broadcasts = [],
      encrypt_fails = False\<rparr>"

section \<open>Properties\<close>

lemma Split_ne: "Split s c \<noteq> []"
  by (induction s) (auto split: list.splits)

lemma Join_Split: "Join (Split s c) c = s"
proof (induction s)
  case Nil show ?case by simp
next
  case (Cons a s)
  obtain p ps where sp: "Split s c = p # ps" using Split_ne[of s c] by (cases "Split s c") auto
  show ?case using Cons sp by (cases ps) auto
qed

lemma Split_append: "Split (pre @ c # d) c = Split pre c @ Split d c"
proof (induction pre)
  case Nil show ?case by simp
next
  case (Cons a pre)
  obtain p ps where sp: "Split pre c = p # ps" using Split_ne[of pre c] by (cases "Split pre c") auto
  show ?case using Cons sp by auto
qed

lemma Join_append: "xs \<noteq> [] \<Longrightarrow> ys \<noteq> [] \<Longrightarrow> Join (xs @ ys) c = Join xs c @ c # Join ys c"
proof (induction xs)
  case Nil then show ?case by simp
next
  case (Cons x xs)
  show ?case
  proof (cases xs)
    case Nil
    with Cons.prems show ?thesis by (cases ys) auto
  next
    case (Cons x' xs')
    with Cons.IH Cons.prems show ?thesis by auto
  qed
qed

lemma subdomainMatch_iff:
  "subdomainMatch hosts parts \<longleftrightarrow>
     (\<exists>i<length parts. hosts (Join (drop i parts) CHR ''.'') \<or> hosts (Join (drop i parts) CHR ''.'' @ ''.''))"
proof (induction parts)
  case Nil show ?case by simp
next
  case (Cons p ps)
  show ?case 
    apply (simp add: Let_def Cons.IH del: Join.simps)
    apply (auto simp: less_Suc_eq_0_disj simp del: Join.simps)
    done
qed

lemma suffixes_of_Split:
  "(\<exists>i<length (Split n c). P (Join (drop i (Split n c)) c)) \<longleftrightarrow> P n \<or> (\<exists>pre d. n = pre @ c # d \<and> P d)"
proof
  assume "\<exists>i<length (Split n c). P (Join (drop i (Split n c)) c)"
  then obtain i where i: "i < length (Split n c)" and P: "P (Join (drop i (Split n c)) c)" by blast
  show "P n \<or> (\<exists>pre d. n = pre @ c # d \<and> P d)"
  proof (cases i)
    case 0
    with P show ?thesis by (simp add: Join_Split)
  next
    case (Suc j)
    let ?xs = "take i (Split n c)" and ?ys = "drop i (Split n c)"
    have ne: "?xs \<noteq> []" "?ys \<noteq> []" using i Suc by auto
    have "n = Join (?xs @ ?ys) c" by (simp add: Join_Split)
    also have "\<dots> = Join ?xs c @ c # Join ?ys c" using ne by (rule Join_append)
    finally show ?thesis using P by blast
  qed
next
  assume "P n \<or> (\<exists>pre d. n = pre @ c # d \<and> P d)"
  then show "\<exists>i<length (Split n c). P (Join (drop i (Split n c)) c)"
  proof
    assume "P n"
    then have "P (Join (drop 0 (Split n c)) c)" by (simp add: Join_Split)
    moreover have "0 < length (Split n c)" using Split_ne[of n c] by simp
    ultimately show ?thesis by blast
  next
    assume "\<exists>pre d. n = pre @ c # d \<and> P d"
    then obtain pre d where n: "n = pre @ c # d" and P: "P d" by blast
    have sp: "Split n c = Split pre c @ Split d c" unfolding n by (rule Split_append)
    have "length (Split pre c) < length (Split n c)" using Split_ne[of d c] sp by simp
    moreover have "P (Join (drop (length (Split pre c)) (Split n c)) c)"
      using P by (simp add: sp Join_Split)
    ultimately show ?thesis by blast
  qed
qed

lemma isHostAllowed_enabled:
  assumes "Enabled wl"
  shows "isHostAllowed tbl wl q \<longleftrightarrow>
     stored wl (ToLower tbl (TrimSuffix q ''.'')) \<or>
     (\<exists>d. stripped_labels (ToLower tbl (TrimSuffix q ''.'')) d \<and> stored wl d)"
proof -
  let ?n = "ToLower tbl (TrimSuffix q ''.'')"
  have "isHostAllowed tbl wl q \<longleftrightarrow> stored wl ?n \<or> subdomainMatch (Hosts wl) (Split ?n CHR ''.'')"
    using assms by (auto simp: isHostAllowed_def stored_def Let_def)
  also have "subdomainMatch (Hosts wl) (Split ?n CHR ''.'') \<longleftrightarrow>
      (\<exists>i<length (Split ?n CHR ''.''). stored wl (Join (drop i (Split ?n CHR ''.'')) CHR ''.''))"
    by (simp add: subdomainMatch_iff stored_def)
  also have "\<dots> \<longleftrightarrow> stored wl ?n \<or> (\<exists>pre d. ?n = pre @ CHR ''.'' # d \<and> stored wl d)"
    by (rule suffixes_of_Split)
  finally show ?thesis by (auto simp: stripped_labels_def)
qed

lemma isHostAllowed_empty:
  assumes "Enabled wl" "\<forall>h. \<not> Hosts wl h"
  shows "\<not> isHostAllowed tbl wl q"
  using assms by (simp add: isHostAllowed_enabled stored_def)

text \<open>
  Claim C6. With the whitelist enabled, a query name is allowed iff its normal form (one
  trailing dot stripped, lower-cased) matches a stored entry, or what is left of it after
  stripping one or more leading labels at a dot does. An enabled whitelist with no hosts
  allows no name, and a disabled whitelist allows every name.
\<close>

theorem C6_whitelist_allow_rule:
  "(Enabled wl \<longrightarrow>
      (isHostAllowed tbl wl q \<longleftrightarrow>
         stored wl (ToLower tbl (TrimSuffix q ''.'')) \<or>
         (\<exists>d. stripped_labels (ToLower tbl (TrimSuffix q ''.'')) d \<and> stored wl d)))
   \<and> (Enabled wl \<and> (\<forall>h. \<not> Hosts wl h) \<longrightarrow> \<not> isHostAllowed tbl wl q)
   \<and> (\<not> Enabled wl \<longrightarrow> isHostAllowed tbl wl q)"
  using isHostAllowed_enabled [where wl = wl and q = q and tbl = tbl]
    isHostAllowed_empty [where wl = wl and q = q and tbl = tbl]
  by (simp add: isHostAllowed_def)

lemma addHosts_iff:
  "addHosts tbl m hs d \<longleftrightarrow> m d \<or> (\<exists>h\<in>set hs. d = ToLower tbl (TrimSuffix h ''.'') \<or> d = ToLower tbl (TrimSuffix h ''.'') @ ''.'')"
  by (induction hs arbitrary: m) (auto simp: Let_def)

lemma stored_SetWhitelist:
  "stored (SetWhitelist tbl enabled hs) d \<longleftrightarrow>
     (\<exists>h\<in>set hs. d = ToLower tbl (TrimSuffix h ''.'') \<or> d = ToLower tbl (TrimSuffix h ''.'') @ ''.''
                  \<or> d @ ''.'' = ToLower tbl (TrimSuffix h ''.''))"
  by (auto simp: stored_def SetWhitelist_def addHosts_iff)

theorem C6_whitelist_allow_rule_witness:
  "isHostAllowed latin1 (SetWhitelist latin1 True [''Example.com.'']) ''api.EXAMPLE.com.''
   \<and> \<not> isHostAllowed latin1 (SetWhitelist latin1 True []) ''example.com.''
   \<and> isHostAllowed latin1 (SetWhitelist latin1 False []) ''evil.net.''"
proof -
  let ?wl = "SetWhitelist latin1 True [''Example.com.'']"
  have low: "ToLower latin1 (TrimSuffix ''api.EXAMPLE.com.'' ''.'') = ''api.example.com''"
    by (simp add: ToLower_def TrimSuffix_def HasSuffix_def lower_char_def)
  have en: "Enabled ?wl" by (simp add: SetWhitelist_def)
  have st: "stored ?wl ''example.com''"
    by (simp add: stored_def SetWhitelist_def ToLower_def TrimSuffix_def HasSuffix_def lower_char_def)
  have sl: "stripped_labels ''api.example.com'' ''example.com''"
    unfolding stripped_labels_def by (rule exI [of _ "''api''"]) simp
  have a: "isHostAllowed latin1 ?wl ''api.EXAMPLE.com.''"
    using C6_whitelist_allow_rule [where wl = ?wl and q = "''api.EXAMPLE.com.''" and tbl = latin1] en st sl unfolding low by blast
  have "Enabled (SetWhitelist latin1 True []) \<and> (\<forall>h. \<not> Hosts (SetWhitelist latin1 True []) h)"
    by (simp add: SetWhitelist_def)
  then have b: "\<not> isHostAllowed latin1 (SetWhitelist latin1 True []) ''example.com.''"
    using C6_whitelist_allow_rule [where wl = "SetWhitelist latin1 True []" and q = "''example.com.''"
        and tbl = latin1] by blast
  have "\<not> Enabled (SetWhitelist latin1 False [])"
    by (simp add: SetWhitelist_def)
  then have c: "isHostAllowed latin1 (SetWhitelist latin1 False []) ''evil.net.''"
    using C6_whitelist_allow_rule [where wl = "SetWhitelist latin1 False []" and q = "''evil.net.''"
        and tbl = latin1] by blast
  show ?thesis using a b c by blast
qed

lemma ToLower_utf8:
  "map of_char (ToLower latin1 [CHR 0xC3, CHR 0x84, CHR ''B'', CHR 0xFF, CHR 0xE2, CHR 0x82, CHR 0xAC]) =
     [0xC3, 0xA4, 0x62, 0xEF, 0xBF, 0xBD, 0xE2, 0x82, 0xAC :: nat]"
  by (simp add: ToLower_def DecodeRune_def leading_def EncodeRune_def ToLowerRune_def latin1_def
      RuneError_def)

lemmas str_simps = TrimSuffix_def HasSuffix_def TrimPrefix_def HasPrefix_def ToLower_def lower_char_def

text \<open>
  Claim C1 says that the form \<open><service>.<namespace>.svc.<zone>\<close> gets the same A answers
  as \<open><service>.<namespace>.<zone>\<close>. \<open>parseServiceName\<close> strips \<open>.<zone>\<close> before it
  tries \<open>.svc.<zone>\<close>, so the second suffix is never found: the \<open>svc\<close> form is read as
  service \<open>postgres.default\<close> in namespace \<open>svc\<close>, and with two fresh endpoints registered
  for \<open>postgres\<close> in \<open>default\<close> the plain form gets two A records and the \<open>svc\<close> form none.
\<close>

theorem C1_svc_form_resolves_differently:
  "Answer (handleAQuery accept_all demo_server Second empty_reply plain_question) =
     [RR_A ''postgres.default.cluster.local.'' 60 ''10.0.1.1'',
      RR_A ''postgres.default.cluster.local.'' 60 ''10.0.1.2'']
   \<and> Answer (handleAQuery accept_all demo_server Second empty_reply svc_question) = []
   \<and> parseServiceName demo_server (Name svc_question) = Inr (''postgres.default'', ''svc'')"
  by (simp add: handleAQuery_def parseServiceName_def GetServiceEndpoints_def serviceKey_def
      demo_server_def demo_registry_def plain_question_def svc_question_def empty_reply_def
      ep1_def ep2_def fresh_def Second_def NewRR_def accept_all_def str_simps)

text \<open>
  Claim C8 as stated fails: with two fresh endpoints on ports 5432 and 6432 the answer is
  not the one the specification describes (priorities 10 and 20, each endpoint's own
  port); both SRV records carry the port of the first endpoint.
\<close>

theorem C8_counterexample:
  "Answer (handleSRVQuery accept_all demo_server Second empty_reply srv_question) \<noteq>
     spec_SRV_answer (Name srv_question) ''postgres.default.cluster.local.'' [ep1, ep2]
   \<and> GetServiceEndpoints (discovery demo_server) Second ''postgres'' ''default'' = Inr [ep1, ep2]
   \<and> Answer (handleSRVQuery accept_all demo_server Second empty_reply srv_question) =
       [RR_SRV ''_sql._tcp.postgres.default.cluster.local.'' 60 10 10 5432 ''postgres.default.cluster.local.'',
        RR_SRV ''_sql._tcp.postgres.default.cluster.local.'' 60 10 10 5432 ''postgres.default.cluster.local.'']"
  by (simp add: handleSRVQuery_def parseSRVName_def GetServiceEndpoints_def serviceKey_def
      demo_server_def demo_registry_def srv_question_def empty_reply_def spec_SRV_answer_def
      ep1_def ep2_def fresh_def Second_def NewRR_def accept_all_def str_simps enumerate_eq_zip Let_def)


lemma addSRVRecords_accepted:
  assumes "\<forall>p. accepts (RR_SRV qname 60 p 10 port target)"
      and "\<forall>e\<in>set eps. accepts (RR_A target 60 (Address e))"
  shows "\<exists>prios. length prios = length eps
           \<and> (eps \<noteq> [] \<longrightarrow> hd prios = priority)
           \<and> Answer (addSRVRecords accepts qname target port i priority m eps) =
               Answer m @ map (\<lambda>p. RR_SRV qname 60 p 10 port target) prios
           \<and> Extra (addSRVRecords accepts qname target port i priority m eps) =
               Extra m @ map (\<lambda>e. RR_A target 60 (Address e)) eps"
  using assms
proof (induction eps arbitrary: i priority m)
  case Nil
  then show ?case by simp
next
  case (Cons e eps)
  define p' where "p' = (if i > 0 then priority + 10 else priority)"
  define m2 where "m2 = m\<lparr>Answer := Answer m @ [RR_SRV qname 60 priority 10 port target],
                          Extra := Extra m @ [RR_A target 60 (Address e)]\<rparr>"
  have step: "addSRVRecords accepts qname target port i priority m (e # eps) =
              addSRVRecords accepts qname target port (Suc i) p' m2 eps"
    using Cons.prems by (simp add: NewRR_def Let_def p'_def m2_def)
  have m2: "Answer m2 = Answer m @ [RR_SRV qname 60 priority 10 port target]"
           "Extra m2 = Extra m @ [RR_A target 60 (Address e)]"
    by (simp_all add: m2_def)
  from Cons.IH [where i = "Suc i" and priority = p' and m = m2] Cons.prems
  obtain prios where len: "length prios = length eps"
    and ans: "Answer (addSRVRecords accepts qname target port (Suc i) p' m2 eps) =
               Answer m2 @ map (\<lambda>p. RR_SRV qname 60 p 10 port target) prios"
    and ext: "Extra (addSRVRecords accepts qname target port (Suc i) p' m2 eps) =
               Extra m2 @ map (\<lambda>e. RR_A target 60 (Address e)) eps"
    by auto
  show ?case
    unfolding step
    by (rule exI [of _ "priority # prios"]) (simp add: len ans ext m2)
qed

text \<open>
  Claim C8, amended. When the name parses and the service is known, and the DNS library
  accepts the records, an SRV query adds one SRV record per fresh endpoint, the first with
  priority 10, each with weight 10, with the port of the first endpoint visited (0 when
  there is none) and with target \<open><service>.<namespace>.<zone>.\<close>, and it adds one glue A
  record for the target per endpoint, with that endpoint's address, to the Additional
  section.
\<close>

theorem C8_srv_records:
  assumes "parseSRVName s (Name q) = Inr (portName, protocol, serviceName, namespace)"
      and "GetServiceEndpoints (discovery s) now serviceName namespace = Inr endpoints"
      and "target = serviceName @ ''.'' @ namespace @ ''.'' @ clusterDomain s @ ''.''"
      and "port = (case endpoints of [] \<Rightarrow> 0 | e # _ \<Rightarrow> Port e)"
      and "\<forall>p. accepts (RR_SRV (Name q) 60 p 10 port target)"
      and "\<forall>e\<in>set endpoints. accepts (RR_A target 60 (Address e))"
  shows "\<exists>prios. length prios = length endpoints
           \<and> (endpoints \<noteq> [] \<longrightarrow> hd prios = 10)
           \<and> Answer (handleSRVQuery accepts s now m q) =
               Answer m @ map (\<lambda>p. RR_SRV (Name q) 60 p 10 port target) prios
           \<and> Extra (handleSRVQuery accepts s now m q) =
               Extra m @ map (\<lambda>e. RR_A target 60 (Address e)) endpoints"
proof -
  have "handleSRVQuery accepts s now m q =
          addSRVRecords accepts (Name q) target port 0 10 m endpoints"
    using assms(1-4) by (simp add: handleSRVQuery_def Let_def)
  then show ?thesis
    using addSRVRecords_accepted [OF assms(5,6), where i = 0 and priority = 10 and m = m] by simp
qed

theorem C8_srv_records_witness:
  "\<exists>prios. length prios = 2 \<and> hd prios = 10
     \<and> Answer (handleSRVQuery accept_all demo_server Second empty_reply srv_question) =
         map (\<lambda>p. RR_SRV ''_sql._tcp.postgres.default.cluster.local.'' 60 p 10 5432
                    ''postgres.default.cluster.local.'') prios
     \<and> Extra (handleSRVQuery accept_all demo_server Second empty_reply srv_question) =
         [RR_A ''postgres.default.cluster.local.'' 60 ''10.0.1.1'',
          RR_A ''postgres.default.cluster.local.'' 60 ''10.0.1.2'']"
proof -
  have p: "parseSRVName demo_server (Name srv_question) =
             Inr (''sql'', ''tcp'', ''postgres'', ''default'')"
    by (simp add: parseSRVName_def demo_server_def srv_question_def str_simps)
  have g: "GetServiceEndpoints (discovery demo_server) Second ''postgres'' ''default'' =
             Inr [ep1, ep2]"
    by (simp add: GetServiceEndpoints_def serviceKey_def demo_server_def demo_registry_def
        fresh_def ep1_def ep2_def Second_def)
  have t: "''postgres.default.cluster.local.'' =
             ''postgres'' @ ''.'' @ ''default'' @ ''.'' @ clusterDomain demo_server @ ''.''"
    by (simp add: demo_server_def)
  have po: "(5432::int) = (case [ep1, ep2] of [] \<Rightarrow> 0 | e # _ \<Rightarrow> Port e)"
    by (simp add: ep1_def)
  have a1: "\<forall>p. accept_all (RR_SRV (Name srv_question) 60 p 10 5432 ''postgres.default.cluster.local.'')"
    by (simp add: accept_all_def)
  have a2: "\<forall>e\<in>set [ep1, ep2]. accept_all (RR_A ''postgres.default.cluster.local.'' 60 (Address e))"
    by (simp add: accept_all_def)
  from C8_srv_records [OF p g t po a1 a2, where m = empty_reply]
  obtain prios where "length prios = length [ep1, ep2]" "hd prios = 10"
    "Answer (handleSRVQuery accept_all demo_server Second empty_reply srv_question) =
       Answer empty_reply @
       map (\<lambda>p. RR_SRV (Name srv_question) 60 p 10 5432 ''postgres.default.cluster.local.'') prios"
    "Extra (handleSRVQuery accept_all demo_server Second empty_reply srv_question) =
       Extra empty_reply @ map (\<lambda>e. RR_A ''postgres.default.cluster.local.'' 60 (Address e)) [ep1, ep2]"
    by auto
  then show ?thesis
    by (intro exI [of _ prios]) (simp add: srv_question_def empty_reply_def ep1_def ep2_def)
qed


lemma exchangeUpstream_cases:
  "exchangeUpstream ex i u =
     (case ex i udpClient u of
        Inr resp \<Rightarrow> (Inr resp, [(udpClient, u)])
      | Inl err \<Rightarrow> (ex i tcpClient u, [(udpClient, u), (tcpClient, u)]))"
  by (simp add: exchangeUpstream_def udpClient_def tcpClient_def Let_def split: sum.splits)

lemma contactsOf_Nil: "contactsOf ex i [] = []"
  by (simp add: contactsOf_def)

lemma contactsOf_Cons:
  "contactsOf ex i (u # us) = snd (exchangeUpstream ex i u) @ contactsOf ex (Suc i) us"
  by (simp add: contactsOf_def)

lemma tryUpstreams_step_unusable:
  assumes "\<not> usable tbl wl ex i u"
  shows "tryUpstreams tbl wl ex i (u # us) =
           (fst (tryUpstreams tbl wl ex (Suc i) us),
            snd (exchangeUpstream ex i u) @ snd (tryUpstreams tbl wl ex (Suc i) us))"
  using assms
  by (auto simp: usable_def isWhitelistEnabled_def Let_def split: prod.splits sum.splits option.splits)

lemma tryUpstreams_step_usable:
  assumes "usable tbl wl ex i u"
  shows "\<exists>resp. fst (exchangeUpstream ex i u) = Inr (Some resp) \<and>
           tryUpstreams tbl wl ex i (u # us) = (Some resp, snd (exchangeUpstream ex i u))"
  using assms
  by (auto simp: usable_def isWhitelistEnabled_def Let_def split: prod.splits sum.splits option.splits)

lemma tryUpstreams_all_unusable:
  assumes "\<forall>j<length ups. \<not> usable tbl wl ex (i + j) (ups ! j)"
  shows "tryUpstreams tbl wl ex i ups = (None, contactsOf ex i ups)"
  using assms
proof (induction ups arbitrary: i)
  case Nil
  show ?case by (simp add: contactsOf_Nil)
next
  case (Cons u us)
  have u: "\<not> usable tbl wl ex i u" using Cons.prems by (auto dest: spec [of _ 0])
  have "\<forall>j<length us. \<not> usable tbl wl ex (Suc i + j) (us ! j)"
  proof (intro allI impI)
    fix j assume "j < length us"
    then have "\<not> usable tbl wl ex (i + Suc j) ((u # us) ! Suc j)" using Cons.prems by auto
    then show "\<not> usable tbl wl ex (Suc i + j) (us ! j)" by simp
  qed
  then have "tryUpstreams tbl wl ex (Suc i) us = (None, contactsOf ex (Suc i) us)" by (rule Cons.IH)
  then show ?case by (simp add: tryUpstreams_step_unusable [OF u] contactsOf_Cons del: tryUpstreams.simps)
qed

lemma tryUpstreams_first_usable:
  assumes "k < length ups" "usable tbl wl ex (i + k) (ups ! k)"
      and "\<forall>j<k. \<not> usable tbl wl ex (i + j) (ups ! j)"
  shows "\<exists>resp. fst (exchangeUpstream ex (i + k) (ups ! k)) = Inr (Some resp) \<and>
           tryUpstreams tbl wl ex i ups = (Some resp, contactsOf ex i (take (Suc k) ups))"
  using assms
proof (induction ups arbitrary: i k)
  case Nil
  then show ?case by simp
next
  case (Cons u us)
  show ?case
  proof (cases k)
    case 0
    with Cons.prems have "usable tbl wl ex i u" by simp
    from tryUpstreams_step_usable [OF this, of us] 0 show ?thesis
      by (auto simp: contactsOf_Cons contactsOf_Nil)
  next
    case (Suc k')
    have u: "\<not> usable tbl wl ex i u" using Cons.prems(3) Suc by (auto dest: spec [of _ 0])
    have k': "k' < length us" using Cons.prems(1) Suc by simp
    have us: "usable tbl wl ex (Suc i + k') (us ! k')" using Cons.prems(2) Suc by simp
    have "\<forall>j<k'. \<not> usable tbl wl ex (Suc i + j) (us ! j)"
    proof (intro allI impI)
      fix j assume "j < k'"
      then have "\<not> usable tbl wl ex (i + Suc j) ((u # us) ! Suc j)" using Cons.prems(3) Suc by auto
      then show "\<not> usable tbl wl ex (Suc i + j) (us ! j)" by simp
    qed
    from Cons.IH [OF k' us this] obtain resp where
      r: "fst (exchangeUpstream ex (Suc i + k') (us ! k')) = Inr (Some resp)"
         "tryUpstreams tbl wl ex (Suc i) us = (Some resp, contactsOf ex (Suc i) (take (Suc k') us))"
      by blast
    show ?thesis
      by (rule exI [of _ resp]) (use r Suc in \<open>simp add: tryUpstreams_step_unusable [OF u] contactsOf_Cons del: tryUpstreams.simps\<close>)
  qed
qed

lemma cname_blocks:
  assumes "RR_CNAME name ttl target \<in> set (Answer resp) \<union> set (Extra resp)"
      and "\<not> isHostAllowed tbl wl target"
  shows "\<not> validateCNAMERecords tbl wl resp"
proof -
  have "\<not> cnameAllowed tbl wl (RR_CNAME name ttl target)" using assms(2) by simp
  then have "\<not> list_all (cnameAllowed tbl wl) (Answer resp) \<or> \<not> list_all (cnameAllowed tbl wl) (Extra resp)"
    using assms(1) unfolding list_all_iff by blast
  then show ?thesis by (auto simp: validateCNAMERecords_def)
qed

text \<open>
  Claim C5. When the whitelist is enabled and the question name is not allowed, the reply
  has code REFUSED and no exchange is made. Otherwise the upstreams are asked in order: the
  reply is the response of the first usable upstream and the exchanges made are those of
  the upstreams up to it, or, when no upstream is usable, the reply has code SERVFAIL and
  every upstream was asked. Each upstream is asked over UDP with a timeout of 5 seconds and,
  when that exchange returns an error, again over TCP. A response with \<open>RcodeSuccess\<close>
  holding a CNAME whose target is not allowed makes its upstream unusable.
\<close>

theorem C5_forwardQuery:
  "(Enabled (whitelist s) \<and> \<not> isHostAllowed tbl (whitelist s) (questionName r) \<longrightarrow>
      Rcode (fst (forwardQuery tbl s ex r)) = RcodeRefused \<and> snd (forwardQuery tbl s ex r) = [])
   \<and> (\<not> (Enabled (whitelist s) \<and> \<not> isHostAllowed tbl (whitelist s) (questionName r)) \<longrightarrow>
        (\<forall>k<length (upstreamDNS s).
            usable tbl (whitelist s) ex k (upstreamDNS s ! k) \<and>
            (\<forall>j<k. \<not> usable tbl (whitelist s) ex j (upstreamDNS s ! j)) \<longrightarrow>
            fst (exchangeUpstream ex k (upstreamDNS s ! k)) = Inr (Some (fst (forwardQuery tbl s ex r))) \<and>
            snd (forwardQuery tbl s ex r) = contactsOf ex 0 (take (Suc k) (upstreamDNS s)))
        \<and> ((\<forall>j<length (upstreamDNS s). \<not> usable tbl (whitelist s) ex j (upstreamDNS s ! j)) \<longrightarrow>
            Rcode (fst (forwardQuery tbl s ex r)) = RcodeServerFailure \<and>
            snd (forwardQuery tbl s ex r) = contactsOf ex 0 (upstreamDNS s)))
   \<and> exchangeUpstream ex i u =
        (case ex i udpClient u of
           Inr resp \<Rightarrow> (Inr resp, [(udpClient, u)])
         | Inl err \<Rightarrow> (ex i tcpClient u, [(udpClient, u), (tcpClient, u)]))
   \<and> Timeout udpClient = 5 * Second \<and> Timeout tcpClient = 5 * Second
   \<and> (fst (exchangeUpstream ex i u) = Inr (Some resp) \<and> Rcode resp = RcodeSuccess \<and>
        RR_CNAME name ttl target \<in> set (Answer resp) \<union> set (Extra resp) \<and>
        \<not> isHostAllowed tbl (whitelist s) target \<longrightarrow> \<not> usable tbl (whitelist s) ex i u)"
proof (intro conjI impI allI)
  assume a: "Enabled (whitelist s) \<and> \<not> isHostAllowed tbl (whitelist s) (questionName r)"
  then show "Rcode (fst (forwardQuery tbl s ex r)) = RcodeRefused"
    and "snd (forwardQuery tbl s ex r) = []"
    by (simp_all add: forwardQuery_def questionName_def isWhitelistEnabled_def)
next
  fix k
  assume n: "\<not> (Enabled (whitelist s) \<and> \<not> isHostAllowed tbl (whitelist s) (questionName r))"
    and k: "k < length (upstreamDNS s)"
    and u: "usable tbl (whitelist s) ex k (upstreamDNS s ! k) \<and>
            (\<forall>j<k. \<not> usable tbl (whitelist s) ex j (upstreamDNS s ! j))"
  from tryUpstreams_first_usable [where k = k and ups = "upstreamDNS s" and wl = "whitelist s" and ex = ex and i = 0 and tbl = tbl] k u
  obtain resp where r: "fst (exchangeUpstream ex k (upstreamDNS s ! k)) = Inr (Some resp)"
    "tryUpstreams tbl (whitelist s) ex 0 (upstreamDNS s) =
       (Some resp, contactsOf ex 0 (take (Suc k) (upstreamDNS s)))"
    by auto
  have f: "forwardQuery tbl s ex r = (resp, contactsOf ex 0 (take (Suc k) (upstreamDNS s)))"
    using n r(2) by (auto simp: forwardQuery_def questionName_def isWhitelistEnabled_def)
  show "fst (exchangeUpstream ex k (upstreamDNS s ! k)) = Inr (Some (fst (forwardQuery tbl s ex r)))"
    using r(1) f by simp
  show "snd (forwardQuery tbl s ex r) = contactsOf ex 0 (take (Suc k) (upstreamDNS s))"
    using f by simp
next
  assume n: "\<not> (Enabled (whitelist s) \<and> \<not> isHostAllowed tbl (whitelist s) (questionName r))"
    and u: "\<forall>j<length (upstreamDNS s). \<not> usable tbl (whitelist s) ex j (upstreamDNS s ! j)"
  from tryUpstreams_all_unusable [where ups = "upstreamDNS s" and wl = "whitelist s" and ex = ex and i = 0 and tbl = tbl] u
  have t: "tryUpstreams tbl (whitelist s) ex 0 (upstreamDNS s) = (None, contactsOf ex 0 (upstreamDNS s))"
    by simp
  have f: "forwardQuery tbl s ex r =
             ((SetReply r)\<lparr>Rcode := RcodeServerFailure\<rparr>, contactsOf ex 0 (upstreamDNS s))"
    using n t by (auto simp: forwardQuery_def questionName_def isWhitelistEnabled_def)
  show "Rcode (fst (forwardQuery tbl s ex r)) = RcodeServerFailure" using f by simp
  show "snd (forwardQuery tbl s ex r) = contactsOf ex 0 (upstreamDNS s)" using f by simp
next
  show "exchangeUpstream ex i u =
        (case ex i udpClient u of
           Inr resp \<Rightarrow> (Inr resp, [(udpClient, u)])
         | Inl err \<Rightarrow> (ex i tcpClient u, [(udpClient, u), (tcpClient, u)]))"
    by (rule exchangeUpstream_cases)
next
  show "Timeout udpClient = 5 * Second" by (simp add: udpClient_def)
  show "Timeout tcpClient = 5 * Second" by (simp add: tcpClient_def)
next
  assume a: "fst (exchangeUpstream ex i u) = Inr (Some resp) \<and> Rcode resp = RcodeSuccess \<and>
        RR_CNAME name ttl target \<in> set (Answer resp) \<union> set (Extra resp) \<and>
        \<not> isHostAllowed tbl (whitelist s) target"
  then have "\<not> validateCNAMERecords tbl (whitelist s) resp" using cname_blocks by blast
  moreover have "Enabled (whitelist s)"
  proof (rule ccontr)
    assume "\<not> Enabled (whitelist s)"
    then have "isHostAllowed tbl (whitelist s) target" by (simp add: isHostAllowed_def)
    with a show False by simp
  qed
  ultimately show "\<not> usable tbl (whitelist s) ex i u" using a by (simp add: usable_def)
qed


theorem C5_forwardQuery_witness:
  "Rcode (fst (forwardQuery latin1 demo_server demo_exchange evil_query)) = RcodeRefused
   \<and> snd (forwardQuery latin1 demo_server demo_exchange evil_query) = []
   \<and> forwardQuery latin1 demo_server demo_exchange www_query =
        (good_response,
         [(udpClient, ''8.8.8.8:53''), (tcpClient, ''8.8.8.8:53''), (udpClient, ''8.8.4.4:53'')])
   \<and> Rcode (fst (forwardQuery latin1 demo_server dead_exchange www_query)) = RcodeServerFailure
   \<and> snd (forwardQuery latin1 demo_server dead_exchange www_query) =
        [(udpClient, ''8.8.8.8:53''), (tcpClient, ''8.8.8.8:53''),
         (udpClient, ''8.8.4.4:53''), (tcpClient, ''8.8.4.4:53'')]"
proof -
  let ?wl = "whitelist demo_server"
  have ups: "upstreamDNS demo_server = [''8.8.8.8:53'', ''8.8.4.4:53'']"
    by (simp add: demo_server_def)
  have en: "Enabled ?wl" by (simp add: demo_server_def SetWhitelist_def)
  have evil: "\<not> isHostAllowed latin1 ?wl (questionName evil_query)"
    by (simp add: demo_server_def SetWhitelist_def isHostAllowed_def questionName_def
        evil_query_def str_simps)
  have www: "isHostAllowed latin1 ?wl (questionName www_query)"
    by (simp add: demo_server_def SetWhitelist_def isHostAllowed_def questionName_def
        www_query_def str_simps)
  have cdn: "\<not> isHostAllowed latin1 ?wl ''cdn.evil.net.''"
    by (simp add: demo_server_def SetWhitelist_def isHostAllowed_def str_simps)
  have x0: "exchangeUpstream demo_exchange 0 ''8.8.8.8:53'' =
              (Inr (Some cname_response), [(udpClient, ''8.8.8.8:53''), (tcpClient, ''8.8.8.8:53'')])"
    by (simp add: exchangeUpstream_def demo_exchange_def udpClient_def tcpClient_def)
  have x1: "exchangeUpstream demo_exchange (Suc 0) ''8.8.4.4:53'' =
              (Inr (Some good_response), [(udpClient, ''8.8.4.4:53'')])"
    by (simp add: exchangeUpstream_def demo_exchange_def udpClient_def)
  have d: "exchangeUpstream dead_exchange j u = (Inl TransportError, [(udpClient, u), (tcpClient, u)])"
    for j u
    by (simp add: exchangeUpstream_def dead_exchange_def udpClient_def tcpClient_def)
  have refused: "Rcode (fst (forwardQuery latin1 demo_server demo_exchange evil_query)) = RcodeRefused
      \<and> snd (forwardQuery latin1 demo_server demo_exchange evil_query) = []"
    using C5_forwardQuery [where tbl = latin1 and s = demo_server and r = evil_query and ex = demo_exchange,
        THEN conjunct1] en evil by (rule_tac mp) auto
  have u0: "\<not> usable latin1 ?wl demo_exchange 0 ''8.8.8.8:53''"
  proof -
    have "fst (exchangeUpstream demo_exchange 0 ''8.8.8.8:53'') = Inr (Some cname_response)
        \<and> Rcode cname_response = RcodeSuccess
        \<and> RR_CNAME ''www.example.com.'' 300 ''cdn.evil.net.''
             \<in> set (Answer cname_response) \<union> set (Extra cname_response)
        \<and> \<not> isHostAllowed latin1 ?wl ''cdn.evil.net.''"
      using cdn by (simp add: x0 cname_response_def)
    then show ?thesis
      by (rule C5_forwardQuery [where tbl = latin1 and s = demo_server and ex = demo_exchange and i = 0
          and u = "''8.8.8.8:53''" and resp = cname_response
          and name = "''www.example.com.''" and ttl = 300 and target = "''cdn.evil.net.''",
          THEN conjunct2, THEN conjunct2, THEN conjunct2, THEN conjunct2, THEN conjunct2,
          THEN mp])
  qed
  have u1: "usable latin1 ?wl demo_exchange (Suc 0) ''8.8.4.4:53''"
    using en by (simp add: usable_def x1 good_response_def validateCNAMERecords_def
        extractCNAMETargets_def RcodeSuccess_def)
  have nref: "\<not> (Enabled ?wl \<and> \<not> isHostAllowed latin1 ?wl (questionName www_query))"
    using www by simp
  note live = C5_forwardQuery [where tbl = latin1 and s = demo_server and r = www_query and ex = demo_exchange,
      THEN conjunct2, THEN conjunct1, THEN mp, OF nref, THEN conjunct1, rule_format, of "Suc 0"]
  have "fst (exchangeUpstream demo_exchange (Suc 0) (upstreamDNS demo_server ! Suc 0)) =
          Inr (Some (fst (forwardQuery latin1 demo_server demo_exchange www_query)))
      \<and> snd (forwardQuery latin1 demo_server demo_exchange www_query) =
          contactsOf demo_exchange 0 (take (Suc (Suc 0)) (upstreamDNS demo_server))"
    by (rule live) (use u0 u1 in \<open>simp_all add: ups\<close>)
  then have ok: "forwardQuery latin1 demo_server demo_exchange www_query =
        (good_response,
         [(udpClient, ''8.8.8.8:53''), (tcpClient, ''8.8.8.8:53''), (udpClient, ''8.8.4.4:53'')])"
    by (simp add: ups x0 x1 contactsOf_def prod_eq_iff enumerate_eq_zip)
  note none = C5_forwardQuery [where tbl = latin1 and s = demo_server and r = www_query and ex = dead_exchange,
      THEN conjunct2, THEN conjunct1, THEN mp, OF nref, THEN conjunct2, THEN mp]
  have "Rcode (fst (forwardQuery latin1 demo_server dead_exchange www_query)) = RcodeServerFailure
      \<and> snd (forwardQuery latin1 demo_server dead_exchange www_query) =
          contactsOf dead_exchange 0 (upstreamDNS demo_server)"
    by (rule none) (simp add: usable_def d)
  then have dead: "Rcode (fst (forwardQuery latin1 demo_server dead_exchange www_query)) = RcodeServerFailure
      \<and> snd (forwardQuery latin1 demo_server dead_exchange www_query) =
        [(udpClient, ''8.8.8.8:53''), (tcpClient, ''8.8.8.8:53''),
         (udpClient, ''8.8.4.4:53''), (tcpClient, ''8.8.4.4:53'')]"
    by (simp add: ups d contactsOf_def enumerate_eq_zip)
  show ?thesis using refused ok dead by simp
qed

lemma persist_maps:
  "deployments (snd (persist fs s)) = deployments s"
  "services (snd (persist fs s)) = services s"
  "ingresses (snd (persist fs s)) = ingresses s"
  "pods (snd (persist fs s)) = pods s"
  "lastModified (snd (persist fs s)) = lastModified s"
  by (simp_all add: persist_def split: io.splits)

lemma persist_ok:
  "persist IoOk s = (None, s\<lparr>state_json := Some (GetState s), state_json_tmp := None\<rparr>)"
  by (simp add: persist_def)

lemma mergePods_dom: "dom local \<subseteq> dom (snd (mergePods local incoming visit))"
proof (induction visit arbitrary: local)
  case Nil
  show ?case by simp
next
  case (Cons key visit)
  have "dom local \<subseteq> dom (local(key \<mapsto> pod))" for pod
    by auto
  then have upd: "dom local \<subseteq> dom (snd (mergePods (local(key \<mapsto> pod)) incoming visit))" for pod
    using Cons.IH [of "local(key \<mapsto> pod)"] by blast
  show ?case
    using Cons.IH [of local] upd
    by (simp split: option.splits ptr.splits)
qed

lemma mergePods_untouched:
  assumes "incoming key = None \<or> key \<notin> set visit"
  shows "snd (mergePods local incoming visit) key = local key"
  using assms
proof (induction visit arbitrary: local)
  case Nil
  show ?case by simp
next
  case (Cons k visit)
  have rest: "incoming key = None \<or> key \<notin> set visit"
    using Cons.prems by auto
  note same = Cons.IH [OF rest, of local]
  show ?case
  proof (cases "incoming k")
    case None
    then show ?thesis using same by simp
  next
    case (Some pod)
    then have kk: "k \<noteq> key"
      using Cons.prems by auto
    have upd: "snd (mergePods (local(k \<mapsto> pod)) incoming visit) key = local key"
      using Cons.IH [OF rest, of "local(k \<mapsto> pod)"] kk
      by (simp del: fun_upd_apply add: fun_upd_other)
    show ?thesis
      using Some upd same by (auto split: option.splits ptr.splits)
  qed
qed

text \<open>
  What the loop over the pods computes when no pointer it reads is nil: it comes to its
  end, and each key it visits keeps the record created later.
\<close>

lemma mergePods_returns:
  assumes "distinct visit"
      and "\<forall>key\<in>set visit. \<forall>pod existing. incoming key = Some pod \<and> local key = Some existing
             \<longrightarrow> pod \<noteq> NilPtr \<and> existing \<noteq> NilPtr"
  shows "fst (mergePods local incoming visit) = Returned ()
     \<and> (\<forall>key\<in>set visit.
          (incoming key = None \<longrightarrow> snd (mergePods local incoming visit) key = local key)
          \<and> (local key = None \<longrightarrow> incoming key \<noteq> None \<longrightarrow>
               snd (mergePods local incoming visit) key = incoming key)
          \<and> (\<forall>p e. incoming key = Some (Ptr p) \<and> local key = Some (Ptr e) \<longrightarrow>
               snd (mergePods local incoming visit) key =
                 Some (Ptr (if pod_CreatedAt p > pod_CreatedAt e then p else e))))"
  using assms
proof (induction visit arbitrary: local)
  case Nil
  show ?case by simp
next
  case (Cons k visit)
  have d: "distinct visit" and nk: "k \<notin> set visit"
    using Cons.prems(1) by auto
  have safe: "\<forall>key\<in>set visit. \<forall>pod existing.
      incoming key = Some pod \<and> local' key = Some existing \<longrightarrow> pod \<noteq> NilPtr \<and> existing \<noteq> NilPtr"
    if "\<forall>key. key \<noteq> k \<longrightarrow> local' key = local key" for local'
    using Cons.prems(2) nk that by (metis list.set_intros(2))
  have step: "fst (mergePods local' incoming visit) = Returned ()
     \<and> (\<forall>key\<in>set visit.
          (incoming key = None \<longrightarrow> snd (mergePods local' incoming visit) key = local key)
          \<and> (local key = None \<longrightarrow> incoming key \<noteq> None \<longrightarrow>
               snd (mergePods local' incoming visit) key = incoming key)
          \<and> (\<forall>p e. incoming key = Some (Ptr p) \<and> local key = Some (Ptr e) \<longrightarrow>
               snd (mergePods local' incoming visit) key =
                 Some (Ptr (if pod_CreatedAt p > pod_CreatedAt e then p else e))))
     \<and> snd (mergePods local' incoming visit) k = local' k"
    if eq: "\<forall>key. key \<noteq> k \<longrightarrow> local' key = local key" for local'
  proof -
    have "\<forall>key\<in>set visit. local' key = local key"
      using eq nk by auto
    then show ?thesis
      using Cons.IH [OF d safe [OF eq]] mergePods_untouched [of incoming k visit local'] nk
      by simp
  qed
  have same: "\<forall>key. key \<noteq> k \<longrightarrow> local key = local key"
    by simp
  have upd: "\<forall>key. key \<noteq> k \<longrightarrow> (local(k \<mapsto> pod)) key = local key" for pod
    by simp
  show ?case
  proof (cases "incoming k")
    case None
    then have "mergePods local incoming (k # visit) = mergePods local incoming visit"
      by simp
    then show ?thesis
      using step [of local, OF same] None by simp
  next
    case (Some pod)
    show ?thesis
    proof (cases "local k")
      case None
      then have "mergePods local incoming (k # visit) = mergePods (local(k \<mapsto> pod)) incoming visit"
        using Some by simp
      then show ?thesis
        using step [of "local(k \<mapsto> pod)", OF upd [of pod]] Some None
        by (simp del: fun_upd_apply add: fun_upd_same fun_upd_other)
    next
      case existing: (Some existing)
      have "pod \<noteq> NilPtr \<and> existing \<noteq> NilPtr"
        using Cons.prems(2) Some existing by simp
      then obtain p e where pe: "pod = Ptr p" "existing = Ptr e"
        by (cases pod; cases existing) auto
      show ?thesis
      proof (cases "pod_CreatedAt p > pod_CreatedAt e")
        case True
        then have "mergePods local incoming (k # visit) =
            mergePods (local(k \<mapsto> pod)) incoming visit"
          using Some existing pe by simp
        then show ?thesis
          using step [of "local(k \<mapsto> pod)", OF upd [of pod]] Some existing pe True
          by (simp del: fun_upd_apply add: fun_upd_same fun_upd_other)
      next
        case False
        then have "mergePods local incoming (k # visit) = mergePods local incoming visit"
          using Some existing pe by simp
        then show ?thesis
          using step [of local, OF same] Some existing pe False by simp
      qed
    qed
  qed
qed

text \<open>An incoming snapshot that is not newer leaves the Store as it is, whatever it holds.\<close>

lemma MergeState_not_newer:
  assumes "cs_LastModified incoming \<le> lastModified s"
  shows "MergeState fs now visit s (Ptr incoming) = (Returned None, s)"
  using assms by (simp add: MergeState_def)

text \<open>
  A newer snapshot, when the loop over the pods meets no nil pointer at a key the Store
  knows: the three maps are overwritten key by key, each pod key keeps the record
  created later, the modification time is set and the Store is persisted (with a file
  system that takes the write, \<open>state.json\<close> holds the merged maps).
\<close>

lemma MergeState_newer:
  assumes newer: "cs_LastModified incoming > lastModified s"
      and visit: "distinct visit" "set visit = dom (cs_Pods incoming)"
      and nonnil: "\<forall>key pod existing. cs_Pods incoming key = Some pod \<and> pods s key = Some existing
             \<longrightarrow> pod \<noteq> NilPtr \<and> existing \<noteq> NilPtr"
  shows "fst (MergeState fs now visit s (Ptr incoming)) =
           Returned (if fs = IoOk then None else Some PersistError)
     \<and> deployments (snd (MergeState fs now visit s (Ptr incoming))) =
         deployments s ++ cs_Deployments incoming
     \<and> services (snd (MergeState fs now visit s (Ptr incoming))) =
         services s ++ cs_Services incoming
     \<and> ingresses (snd (MergeState fs now visit s (Ptr incoming))) =
         ingresses s ++ cs_Ingresses incoming
     \<and> (\<forall>key.
          (cs_Pods incoming key = None \<longrightarrow>
             pods (snd (MergeState fs now visit s (Ptr incoming))) key = pods s key)
          \<and> (pods s key = None \<longrightarrow> cs_Pods incoming key \<noteq> None \<longrightarrow>
             pods (snd (MergeState fs now visit s (Ptr incoming))) key = cs_Pods incoming key)
          \<and> (\<forall>p e. cs_Pods incoming key = Some (Ptr p) \<and> pods s key = Some (Ptr e) \<longrightarrow>
               pods (snd (MergeState fs now visit s (Ptr incoming))) key =
                 Some (Ptr (if pod_CreatedAt p > pod_CreatedAt e then p else e))))
     \<and> lastModified (snd (MergeState fs now visit s (Ptr incoming))) = now
     \<and> (fs = IoOk \<longrightarrow>
          state_json (snd (MergeState fs now visit s (Ptr incoming))) =
            Some \<lparr>cs_Deployments = deployments s ++ cs_Deployments incoming,
                  cs_Services = services s ++ cs_Services incoming,
                  cs_Ingresses = ingresses s ++ cs_Ingresses incoming,
                  cs_Pods = pods (snd (MergeState fs now visit s (Ptr incoming))),
                  cs_LastModified = now, cs_Version = 1\<rparr>)
     \<and> (fs \<noteq> IoOk \<longrightarrow>
          state_json (snd (MergeState fs now visit s (Ptr incoming))) = state_json s)"
proof -
  let ?local = "pods s" and ?incoming = "cs_Pods incoming"
  have safe: "\<forall>key\<in>set visit. \<forall>pod existing.
      ?incoming key = Some pod \<and> ?local key = Some existing
        \<longrightarrow> pod \<noteq> NilPtr \<and> existing \<noteq> NilPtr"
    using nonnil by blast
  note r = mergePods_returns [OF visit(1) safe]
  obtain merged where mp: "mergePods ?local ?incoming visit = (Returned (), merged)"
    using r by (cases "mergePods ?local ?incoming visit") auto
  have merged: "merged = snd (mergePods ?local ?incoming visit)"
    using mp by simp
  define s' where "s' = s\<lparr>deployments := deployments s ++ cs_Deployments incoming,
                        services := services s ++ cs_Services incoming,
                        ingresses := ingresses s ++ cs_Ingresses incoming,
                        pods := merged, lastModified := now\<rparr>"
  have ms: "MergeState fs now visit s (Ptr incoming) = (Returned (fst (persist fs s')), snd (persist fs s'))"
    using newer mp by (simp add: MergeState_def Let_def split_beta s'_def)
  have pk: "(?incoming key = None \<longrightarrow> merged key = ?local key)
          \<and> (?local key = None \<longrightarrow> ?incoming key \<noteq> None \<longrightarrow> merged key = ?incoming key)
          \<and> (\<forall>p e. ?incoming key = Some (Ptr p) \<and> ?local key = Some (Ptr e) \<longrightarrow>
               merged key = Some (Ptr (if pod_CreatedAt p > pod_CreatedAt e then p else e)))" for key
  proof (cases "key \<in> set visit")
    case True
    then show ?thesis using r merged by blast
  next
    case False
    then have "?incoming key = None"
      using visit(2) by auto
    then show ?thesis
      using mergePods_untouched [of ?incoming key visit ?local] merged by simp
  qed
  have f: "fst (persist fs s') = (if fs = IoOk then None else Some PersistError)"
    by (cases fs) (simp_all add: persist_def)
  have j: "fs = IoOk \<Longrightarrow> state_json (snd (persist fs s')) = Some (GetState s')"
    by (simp add: persist_def)
  have nj: "fs \<noteq> IoOk \<Longrightarrow> state_json (snd (persist fs s')) = state_json s'"
    by (cases fs) (simp_all add: persist_def)
  have fields: "deployments s' = deployments s ++ cs_Deployments incoming"
    "services s' = services s ++ cs_Services incoming"
    "ingresses s' = ingresses s ++ cs_Ingresses incoming"
    "pods s' = merged" "lastModified s' = now" "state_json s' = state_json s"
    by (simp_all add: s'_def)
  show ?thesis
    unfolding ms using pk f j nj
    by (simp add: persist_maps fields GetState_def)
qed

lemma MergeState_example:
  "fst (MergeState IoOk 3000 [''default/nginx-1'', ''default/nginx-0''] local_store
          (Ptr (incoming_state 2000))) = Returned None
   \<and> deployments (snd (MergeState IoOk 3000 [''default/nginx-1'', ''default/nginx-0''] local_store
          (Ptr (incoming_state 2000)))) ''default/nginx'' = Some (Ptr (demo_deployment 5))
   \<and> pods (snd (MergeState IoOk 3000 [''default/nginx-1'', ''default/nginx-0''] local_store
          (Ptr (incoming_state 2000)))) ''default/nginx-0'' = Some (Ptr (demo_pod ''nginx-0'' 200))
   \<and> pods (snd (MergeState IoOk 3000 [''default/nginx-1'', ''default/nginx-0''] local_store
          (Ptr (incoming_state 2000)))) ''default/nginx-1'' = Some (Ptr (demo_pod ''nginx-1'' 100))
   \<and> lastModified (snd (MergeState IoOk 3000 [''default/nginx-1'', ''default/nginx-0''] local_store
          (Ptr (incoming_state 2000)))) = 3000
   \<and> MergeState IoOk 3000 [''default/nginx-1'', ''default/nginx-0''] local_store
          (Ptr (incoming_state 1000)) = (Returned None, local_store)"
  by (simp add: MergeState_def Let_def incoming_state_def local_store_def demo_pod_def
      persist_def)

text \<open>
  Claim C4 says that for every Store and every incoming snapshot that is newer,
  \<open>MergeState\<close> merges the maps, sets \<open>lastModified\<close> and persists. A newer snapshot
  that binds a pod key the Store knows to \<open>null\<close> makes \<open>MergeState\<close> panic when it reads
  \<open>pod.CreatedAt\<close> through the nil pointer: the modification time is not set, nothing is
  persisted, and \<open>HandleStateSyncMessage\<close> and the gossip handler panic with it. (Without
  a nil pointer at a key the Store knows, the merge is the one the claim describes:
  \<open>MergeState_newer\<close> and \<open>MergeState_not_newer\<close> above.)
\<close>

theorem C4_null_pod_entry_panics:
  "lastModified local_store < cs_LastModified (null_pod_state 2000)
   \<and> pods local_store ''default/nginx-0'' = Some (Ptr (demo_pod ''nginx-0'' 100))
   \<and> cs_Pods (null_pod_state 2000) ''default/nginx-0'' = Some NilPtr
   \<and> fst (MergeState IoOk 3000 [''default/nginx-0''] local_store (Ptr (null_pod_state 2000))) = Panic
   \<and> lastModified (snd (MergeState IoOk 3000 [''default/nginx-0''] local_store
        (Ptr (null_pod_state 2000)))) = 1000
   \<and> state_json (snd (MergeState IoOk 3000 [''default/nginx-0''] local_store
        (Ptr (null_pod_state 2000)))) = None
   \<and> fst (HandleStateSyncMessage IoOk 3000 [''default/nginx-0''] local_store
        (as_sync null_pod_sync)) = Panic
   \<and> messageHandler IoOk 3000 [''default/nginx-0''] (demo_registry, local_store) null_pod_sync =
       Panic"
  by (simp add: MergeState_def HandleStateSyncMessage_def messageHandler_def
      HandleServiceUpdate_def null_pod_sync_def null_pod_state_def local_store_def Let_def)

text \<open>
  A nil entry at a key the Store lacks is stored without a look at it; the next newer
  snapshot with a record at that key then panics on the stored nil pointer.
\<close>

lemma nil_entry_is_stored_then_panics:
  "fst (MergeState IoOk 3000 [''default/nginx-0''] empty_store (Ptr (null_pod_state 2000))) =
     Returned None
   \<and> pods (snd (MergeState IoOk 3000 [''default/nginx-0''] empty_store
        (Ptr (null_pod_state 2000)))) ''default/nginx-0'' = Some NilPtr
   \<and> fst (MergeState IoOk 5000 [''default/nginx-1'', ''default/nginx-0'']
        (snd (MergeState IoOk 3000 [''default/nginx-0''] empty_store (Ptr (null_pod_state 2000))))
        (Ptr (incoming_state 4000))) = Panic"
  by (simp add: MergeState_def null_pod_state_def empty_store_def incoming_state_def Let_def
      persist_def)

lemma MergeState_keeps_keys:
  "dom (deployments s) \<subseteq> dom (deployments (snd (MergeState fs now visit s incomingState)))
   \<and> dom (services s) \<subseteq> dom (services (snd (MergeState fs now visit s incomingState)))
   \<and> dom (ingresses s) \<subseteq> dom (ingresses (snd (MergeState fs now visit s incomingState)))
   \<and> dom (pods s) \<subseteq> dom (pods (snd (MergeState fs now visit s incomingState)))"
proof (cases incomingState)
  case NilPtr
  then show ?thesis by (simp add: MergeState_def)
next
  case (Ptr incoming)
  have p: "dom (pods s) \<subseteq> dom (snd (mergePods (pods s) (cs_Pods incoming) visit))"
    by (rule mergePods_dom)
  show ?thesis
  proof (cases "mergePods (pods s) (cs_Pods incoming) visit")
    case (Pair r merged)
    then have "dom (pods s) \<subseteq> dom merged"
      using p by simp
    then show ?thesis
      using Ptr Pair
      by (cases r) (simp_all add: MergeState_def Let_def split_beta persist_maps)
  qed
qed

lemma MergeState_keeps_entries:
  "(cs_Deployments incoming key = None \<longrightarrow>
      deployments (snd (MergeState fs now visit s (Ptr incoming))) key = deployments s key)
   \<and> (cs_Services incoming key = None \<longrightarrow>
      services (snd (MergeState fs now visit s (Ptr incoming))) key = services s key)
   \<and> (cs_Ingresses incoming key = None \<longrightarrow>
      ingresses (snd (MergeState fs now visit s (Ptr incoming))) key = ingresses s key)
   \<and> (cs_Pods incoming key = None \<longrightarrow>
      pods (snd (MergeState fs now visit s (Ptr incoming))) key = pods s key)"
proof (cases "mergePods (pods s) (cs_Pods incoming) visit")
  case (Pair r merged)
  have "cs_Pods incoming key = None \<Longrightarrow> merged key = pods s key"
    using mergePods_untouched [of "cs_Pods incoming" key visit "pods s"] Pair by simp
  then show ?thesis
    using Pair
    by (cases r) (simp_all add: MergeState_def Let_def split_beta persist_maps map_add_def)
qed

text \<open>
  Claim C10. Every key of the four maps of the Store is still a key of the Store in which
  \<open>MergeState\<close> ends, whether it returns or panics, and so for
  \<open>HandleStateSyncMessage\<close>, whatever the incoming snapshot or message is and in whatever
  order the pod keys are visited; and a key that the incoming snapshot lacks keeps its
  entry. (An entry that the snapshot binds to \<open>null\<close> keeps its key, with a nil pointer.)
\<close>

theorem C10_merge_keeps_keys:
  "dom (deployments s) \<subseteq> dom (deployments (snd (MergeState fs now visit s incomingState)))
   \<and> dom (services s) \<subseteq> dom (services (snd (MergeState fs now visit s incomingState)))
   \<and> dom (ingresses s) \<subseteq> dom (ingresses (snd (MergeState fs now visit s incomingState)))
   \<and> dom (pods s) \<subseteq> dom (pods (snd (MergeState fs now visit s incomingState)))
   \<and> dom (deployments s) \<subseteq> dom (deployments (snd (HandleStateSyncMessage fs now visit s data)))
   \<and> dom (services s) \<subseteq> dom (services (snd (HandleStateSyncMessage fs now visit s data)))
   \<and> dom (ingresses s) \<subseteq> dom (ingresses (snd (HandleStateSyncMessage fs now visit s data)))
   \<and> dom (pods s) \<subseteq> dom (pods (snd (HandleStateSyncMessage fs now visit s data)))
   \<and> (cs_Deployments incoming key = None \<longrightarrow>
        deployments (snd (MergeState fs now visit s (Ptr incoming))) key = deployments s key)
   \<and> (cs_Services incoming key = None \<longrightarrow>
        services (snd (MergeState fs now visit s (Ptr incoming))) key = services s key)
   \<and> (cs_Ingresses incoming key = None \<longrightarrow>
        ingresses (snd (MergeState fs now visit s (Ptr incoming))) key = ingresses s key)
   \<and> (cs_Pods incoming key = None \<longrightarrow>
        pods (snd (MergeState fs now visit s (Ptr incoming))) key = pods s key)"
proof -
  have h: "dom (deployments s) \<subseteq> dom (deployments (snd (HandleStateSyncMessage fs now visit s data)))
   \<and> dom (services s) \<subseteq> dom (services (snd (HandleStateSyncMessage fs now visit s data)))
   \<and> dom (ingresses s) \<subseteq> dom (ingresses (snd (HandleStateSyncMessage fs now visit s data)))
   \<and> dom (pods s) \<subseteq> dom (pods (snd (HandleStateSyncMessage fs now visit s data)))"
  proof (cases data)
    case (Inl err)
    then show ?thesis by (simp add: HandleStateSyncMessage_def)
  next
    case (Inr msg)
    show ?thesis
    proof (cases "msg_Type msg = ''state_sync''")
      case True
      show ?thesis
      proof (cases "msg_State msg")
        case NilPtr
        then show ?thesis using Inr True by (simp add: HandleStateSyncMessage_def)
      next
        case (Ptr state)
        then have "HandleStateSyncMessage fs now visit s data = MergeState fs now visit s (Ptr state)"
          using Inr True by (simp add: HandleStateSyncMessage_def)
        then show ?thesis
          using MergeState_keeps_keys [of s fs now visit "Ptr state"] by simp
      qed
    next
      case False
      then show ?thesis using Inr by (simp add: HandleStateSyncMessage_def)
    qed
  qed
  show ?thesis
    using MergeState_keeps_keys [of s fs now visit incomingState] h
      MergeState_keeps_entries [of incoming key fs now visit s]
    by simp
qed

theorem C10_merge_keeps_keys_witness:
  "cs_Pods (incoming_state 2000) ''default/nginx-2'' = None
   \<and> pods (snd (MergeState IoOk 3000 [''default/nginx-1'', ''default/nginx-0''] local_store
        (Ptr (incoming_state 2000)))) ''default/nginx-2'' = Some (Ptr (demo_pod ''nginx-2'' 100))
   \<and> ''default/nginx-0'' \<in> dom (pods (snd (MergeState IoOk 3000 [''default/nginx-0''] local_store
        (Ptr (null_pod_state 2000)))))"
proof -
  have lacks: "cs_Pods (incoming_state 2000) ''default/nginx-2'' = None"
    by (simp add: incoming_state_def)
  have "pods (snd (MergeState IoOk 3000 [''default/nginx-1'', ''default/nginx-0''] local_store
        (Ptr (incoming_state 2000)))) ''default/nginx-2'' = pods local_store ''default/nginx-2''"
    using C10_merge_keeps_keys [where s = local_store and fs = IoOk and now = 3000
        and visit = "[''default/nginx-1'', ''default/nginx-0'']"
        and incoming = "incoming_state 2000" and key = "''default/nginx-2''"] lacks
    by simp
  then have a: "pods (snd (MergeState IoOk 3000 [''default/nginx-1'', ''default/nginx-0''] local_store
        (Ptr (incoming_state 2000)))) ''default/nginx-2'' = Some (Ptr (demo_pod ''nginx-2'' 100))"
    by (simp add: local_store_def)
  have "''default/nginx-0'' \<in> dom (pods local_store)"
    by (simp add: local_store_def)
  then have b: "''default/nginx-0'' \<in> dom (pods (snd (MergeState IoOk 3000 [''default/nginx-0'']
        local_store (Ptr (null_pod_state 2000)))))"
    using C10_merge_keeps_keys [where s = local_store and fs = IoOk and now = 3000
        and visit = "[''default/nginx-0'']" and incomingState = "Ptr (null_pod_state 2000)"]
    by blast
  show ?thesis using lacks a b by simp
qed


text \<open>
  Claim C7 as stated fails: a token manager that knows no tokens rejects the presented
  token \<open>invalid-token\<close>, which is not padded URL-safe base64 (its length is 13).
\<close>

theorem C7_counterexample:
  "tokens (NewTokenManager demo_random demo_secret) = []
   \<and> \<not> fst (ValidateToken (NewTokenManager demo_random demo_secret) 0 ''invalid-token'')"
  by (simp add: ValidateToken_def NewTokenManager_def DecodeString_def b64value_def)

text \<open>
  Claim C7, amended. A presented token that is in the local token set is accepted iff it
  has not expired. One that is not in the set is accepted iff it decodes as padded URL-safe
  base64 and either the hex SHA-256 digest of the secret followed by the decoded bytes is
  a stored hash, or no tokens are known.
\<close>

theorem C7_ValidateToken:
  "fst (ValidateToken tm now token) \<longleftrightarrow>
     (case map_of (tokens tm) token of
        Some t \<Rightarrow> (case tok_ExpiresAt t of None \<Rightarrow> True | Some expiresAt \<Rightarrow> \<not> now > expiresAt)
      | None \<Rightarrow>
          (\<exists>tokenBytes. DecodeString token = Some tokenBytes \<and>
             (EncodeToString (Sum256 (secret tm @ tokenBytes)) \<in> tok_Hash ` snd ` set (tokens tm)
              \<or> tokens tm = [])))"
proof -
  have ex: "list_ex (\<lambda>(k, storedToken). tok_Hash storedToken = h) ts \<longleftrightarrow> h \<in> tok_Hash ` snd ` set ts"
    for h and ts :: "(string \<times> Token) list"
    by (force simp: list_ex_iff)
  show ?thesis
    by (auto simp: ValidateToken_def Let_def ex split: option.splits)
qed

theorem C7_ValidateToken_witness:
  "fst (ValidateToken (NewTokenManager demo_random demo_secret) 0 ''aGVsbG8='')
   \<and> fst (ValidateToken demo_manager 0 ''dG9rZW4='')
   \<and> \<not> fst (ValidateToken demo_manager 0 ''not base64'')"
proof -
  have d: "DecodeString ''aGVsbG8='' = Some [104, 101, 108, 108, 111]"
    by (simp add: DecodeString_def b64value_def)
  have n: "DecodeString ''not base64'' = None"
    by (simp add: DecodeString_def b64value_def)
  have a: "fst (ValidateToken (NewTokenManager demo_random demo_secret) 0 ''aGVsbG8='')"
    unfolding C7_ValidateToken by (simp add: NewTokenManager_def d)
  have b: "fst (ValidateToken demo_manager 0 ''dG9rZW4='')"
    unfolding C7_ValidateToken by (simp add: demo_manager_def demo_token_def)
  have c: "\<not> fst (ValidateToken demo_manager 0 ''not base64'')"
    unfolding C7_ValidateToken by (simp add: demo_manager_def n)
  show ?thesis using a b c by simp
qed

text \<open>
  Claim C9 says that a payload with an unknown or incomplete message is ignored. A JSON
  payload that declares type \<open>service_update\<close> and has no other field, or has a string
  where the port should be, makes \<open>HandleServiceUpdate\<close> panic at an unchecked type
  assertion, and the handler with it.
\<close>

theorem C9_handler_panics:
  "messageHandler IoOk 0 [] (demo_registry, local_store) bare_update = Panic
   \<and> messageHandler IoOk 0 [] (demo_registry, local_store) wrong_port_update = Panic"
  by (simp add: messageHandler_def HandleServiceUpdate_def bare_update_def wrong_port_update_def
      bindO_def assertString_def assertFloat64_def assertBool_def)

lemma handler_ignores_undecodable:
  "messageHandler fs now visit (reg, store) \<lparr>as_map = None, as_sync = Inl err\<rparr> = Returned (reg, store)"
  by (simp add: messageHandler_def HandleServiceUpdate_def HandleStateSyncMessage_def)

lemma handler_ignores_unknown_type:
  assumes "update ''type'' \<noteq> Some (JString ''service_update'')"
      and "msg_Type msg \<noteq> ''state_sync''"
  shows "messageHandler fs now visit (reg, store) \<lparr>as_map = Some update, as_sync = Inr msg\<rparr> =
           Returned (reg, store)"
  using assms by (simp add: messageHandler_def HandleServiceUpdate_def HandleStateSyncMessage_def)

lemma removePods_storage: "api_storage (removePods a ps) = api_storage a"
  by (induction ps arbitrary: a) (simp_all add: Let_def)

lemma DeregisterService_storage:
  assumes "DeregisterService a svc pod = Returned a'"
  shows "api_storage a' = api_storage a"
  using assms
  by (auto simp: DeregisterService_def Broadcast_def Let_def split: option.splits if_splits)

lemma deregisterPods_storage:
  assumes "deregisterPods a svc ps = Returned a'"
  shows "api_storage a' = api_storage a"
  using assms
proof (induction ps arbitrary: a)
  case Nil
  then show ?case by simp
next
  case (Cons pod ps)
  show ?case
  proof (cases "matchesSelector (pod_Labels pod) (svc_Selector svc)")
    case False
    then show ?thesis using Cons by simp
  next
    case True
    then obtain a1 where d: "DeregisterService a svc pod = Returned a1"
        and r: "deregisterPods a1 svc ps = Returned a'"
      using Cons.prems by (cases "DeregisterService a svc pod") auto
    show ?thesis
      using Cons.IH [OF r] DeregisterService_storage [OF d] by simp
  qed
qed

text \<open>
  Taking a registered endpoint out of the registry ends in the panic of the broadcast,
  unless the cluster encrypts its messages and the encryption fails.
\<close>

lemma DeregisterService_panics:
  assumes "api_discovery a (serviceKey (svc_Name svc) (svc_Namespace svc)) = Some endpoints"
      and "map_of endpoints (endpointID (svc_Namespace svc) (svc_Name svc) (pod_ID pod)) = Some endpoint"
      and "\<not> encrypt_fails a"
  shows "DeregisterService a svc pod = Panic"
  using assms by (simp add: DeregisterService_def Broadcast_def Let_def)

lemma DeleteManifest_leaves_store:
  assumes "DeleteManifest a namespace name = Returned a'"
  shows "api_storage a' = api_storage a"
proof -
  let ?key = "storeKey namespace name"
  have d: "api_storage (deleteDeploymentPart a ?key) = api_storage a"
    by (simp add: deleteDeploymentPart_def removePods_storage Let_def split: option.splits)
  have s: "deleteServicePart b ?key = Returned b' \<Longrightarrow> api_storage b' = api_storage b" for b b'
    by (auto simp: deleteServicePart_def split: option.splits outcome.splits
        dest: deregisterPods_storage)
  have i: "deleteIngressPart b ?key = Returned b' \<Longrightarrow> api_storage b' = api_storage b" for b b'
    by (auto simp: deleteIngressPart_def split: option.splits)
  obtain a2 where p: "deleteServicePart (deleteDeploymentPart a ?key) ?key = Returned a2"
      and q: "deleteIngressPart a2 ?key = Returned a'"
    using assms
    by (cases "deleteServicePart (deleteDeploymentPart a ?key) ?key")
       (auto simp: DeleteManifest_def Let_def bindO_def)
  show ?thesis
    using s [OF p] i [OF q] d by simp
qed

lemma store_delete_then_get:
  "GetDeployment (snd (DeleteDeployment fs now s namespace name)) namespace name =
     Inl (NotFound (storeKey namespace name))"
  "GetService (snd (DeleteService fs now s namespace name)) namespace name =
     Inl (NotFound (storeKey namespace name))"
  "GetIngress (snd (DeleteIngress fs now s namespace name)) namespace name =
     Inl (NotFound (storeKey namespace name))"
  by (simp_all add: GetDeployment_def DeleteDeployment_def GetService_def DeleteService_def
      GetIngress_def DeleteIngress_def persist_def Let_def split: io.splits)

text \<open>
  Claim C2 says that after the delete operation the Store no longer has the record.
  \<open>DeleteManifest\<close> removes the Deployment from the map of the API layer and stops its
  containers, but never calls the Store: the record is still returned by \<open>GetDeployment\<close>
  and is still in \<open>state.json\<close>.
\<close>

theorem C2_delete_leaves_record_in_store:
  "GetDeployment (api_storage recovered_api) ''default'' ''nginx'' = Inr (Ptr recovered_deployment)
   \<and> (case DeleteManifest recovered_api ''default'' ''nginx'' of
        Panic \<Rightarrow> False
      | Returned a' \<Rightarrow>
          api_deployments a' ''default/nginx'' = None
          \<and> runtime_calls a' = [CallStopPod ''ctr-0'', CallRemovePod ''ctr-0'',
                                 CallStopPod ''ctr-1'', CallRemovePod ''ctr-1'']
          \<and> GetDeployment (api_storage a') ''default'' ''nginx'' = Inr (Ptr recovered_deployment)
          \<and> map_option cs_Deployments (state_json (api_storage a')) =
              Some [''default/nginx'' \<mapsto> Ptr recovered_deployment])"
  by (simp add: DeleteManifest_def deleteDeploymentPart_def deleteServicePart_def
      deleteIngressPart_def bindO_def recovered_api_def recovered_store_def recovered_deployment_def
      GetDeployment_def storeKey_def demo_pod_def Let_def)

lemma UpdatePodState_frame:
  "nodes (UpdatePodState a c st) = nodes a"
  "localNodeName (UpdatePodState a c st) = localNodeName a"
  "length (heap (UpdatePodState a c st)) = length (heap a)"
  "api_deployments (UpdatePodState a c st) = api_deployments a"
  by (simp_all add: UpdatePodState_def split: option.splits)

lemma new_pod_selector:
  "pod_NodeSelector ((ExtractPodFromTemplate t ns n)\<lparr>pod_ID := g, pod_CreatedAt := c\<rparr>) =
     tmpl_NodeSelector t"
  by (simp add: ExtractPodFromTemplate_def Let_def split: list.splits)

lemma createReplica_ok:
  assumes "\<not> replicaFails (nodes a) (localNodeName a) (tmpl_NodeSelector (dep_Template dep)) e"
  shows "\<exists>a'. createReplica e key dep i a =
               (None, a', dep\<lparr>dep_Pods := dep_Pods dep @ [length (heap a)]\<rparr>)
           \<and> api_deployments a' key = Some (dep\<lparr>dep_Pods := dep_Pods dep @ [length (heap a)]\<rparr>)
           \<and> nodes a' = nodes a \<and> localNodeName a' = localNodeName a
           \<and> length (heap a') = Suc (length (heap a))"
  using assms
  by (auto simp: createReplica_def SchedulePod_def replicaFails_def new_pod_selector
      UpdatePodState_frame Let_def split: option.splits sum.splits)

lemma createReplica_fails:
  assumes "replicaFails (nodes a) (localNodeName a) (tmpl_NodeSelector (dep_Template dep)) e"
  shows "\<exists>a'. createReplica e key dep i a =
             (Some (replicaError (nodes a) (tmpl_NodeSelector (dep_Template dep)) e), a', dep)
           \<and> api_deployments a' = api_deployments a
           \<and> length (heap a') = Suc (length (heap a))"
  using assms
  by (auto simp: createReplica_def SchedulePod_def replicaFails_def replicaError_def
      new_pod_selector UpdatePodState_frame Let_def split: option.splits sum.splits)

lemma createPods_all_ok:
  assumes "0 \<le> i"
      and "\<forall>j. nat i \<le> j \<and> int j < dep_DesiredReplicas dep \<longrightarrow>
             \<not> replicaFails (nodes a) (localNodeName a) (tmpl_NodeSelector (dep_Template dep)) (env j)"
      and "api_deployments a key = Some dep"
  shows "\<exists>a'. createPods env key dep i a = (None, a')
           \<and> podCount a' key = Some (length (dep_Pods dep) + nat (dep_DesiredReplicas dep - i))"
  using assms
proof (induction env key dep i a rule: createPods.induct)
  case (1 env key dep i a)
  show ?case
  proof (cases "i < dep_DesiredReplicas dep")
    case False
    then show ?thesis
      using "1.prems" by (simp add: podCount_def)
  next
    case True
    let ?dep' = "dep\<lparr>dep_Pods := dep_Pods dep @ [length (heap a)]\<rparr>"
    have "\<not> replicaFails (nodes a) (localNodeName a) (tmpl_NodeSelector (dep_Template dep)) (env (nat i))"
      using "1.prems" True by simp
    from createReplica_ok [OF this, of key i]
    obtain a' where r: "createReplica (env (nat i)) key dep i a = (None, a', ?dep')"
      and d: "api_deployments a' key = Some ?dep'"
      and f: "nodes a' = nodes a" "localNodeName a' = localNodeName a"
      by blast
    have ok: "\<forall>j. nat (i + 1) \<le> j \<and> int j < dep_DesiredReplicas ?dep' \<longrightarrow>
             \<not> replicaFails (nodes a') (localNodeName a') (tmpl_NodeSelector (dep_Template ?dep')) (env j)"
      using "1.prems"(1,2) f by auto
    have "0 \<le> i + 1" using "1.prems"(1) by simp
    from "1.IH" [OF True r [symmetric] refl refl this ok d]
    obtain a'' where c: "createPods env key ?dep' (i + 1) a' = (None, a'')"
      and n: "podCount a'' key =
               Some (length (dep_Pods ?dep') + nat (dep_DesiredReplicas ?dep' - (i + 1)))"
      by blast
    have "createPods env key dep i a = (None, a'')"
      using True r c by (subst createPods.simps) simp
    moreover have "length (dep_Pods ?dep') + nat (dep_DesiredReplicas ?dep' - (i + 1)) =
                   length (dep_Pods dep) + nat (dep_DesiredReplicas dep - i)"
      using True by simp
    ultimately show ?thesis using n by simp
  qed
qed

lemma createPods_first_failure:
  assumes "0 \<le> i" "nat i \<le> k" "int k < dep_DesiredReplicas dep"
      and "replicaFails (nodes a) (localNodeName a) (tmpl_NodeSelector (dep_Template dep)) (env k)"
      and "\<forall>j. nat i \<le> j \<and> j < k \<longrightarrow>
             \<not> replicaFails (nodes a) (localNodeName a) (tmpl_NodeSelector (dep_Template dep)) (env j)"
      and "api_deployments a key = Some dep"
  shows "\<exists>a'. createPods env key dep i a =
             (Some (replicaError (nodes a) (tmpl_NodeSelector (dep_Template dep)) (env k)), a')
           \<and> podCount a' key = Some (length (dep_Pods dep) + (k - nat i))
           \<and> length (heap a') = length (heap a) + (k - nat i) + 1"
  using assms
proof (induction env key dep i a rule: createPods.induct)
  case (1 env key dep i a)
  have lt: "i < dep_DesiredReplicas dep" using "1.prems"(1-3) by linarith
  show ?case
  proof (cases "nat i = k")
    case True
    with "1.prems"(4)
    have "replicaFails (nodes a) (localNodeName a) (tmpl_NodeSelector (dep_Template dep)) (env (nat i))"
      by simp
    from createReplica_fails [OF this, of key i]
    obtain a' where r: "createReplica (env (nat i)) key dep i a =
          (Some (replicaError (nodes a) (tmpl_NodeSelector (dep_Template dep)) (env (nat i))), a', dep)"
      and d: "api_deployments a' = api_deployments a"
      and h: "length (heap a') = Suc (length (heap a))"
      by blast
    have "createPods env key dep i a =
        (Some (replicaError (nodes a) (tmpl_NodeSelector (dep_Template dep)) (env k)), a')"
      using lt r True by (subst createPods.simps) simp
    then show ?thesis
      using d h True "1.prems"(6) by (simp add: podCount_def)
  next
    case False
    then have ik: "nat i < k" using "1.prems"(2) by simp
    let ?dep' = "dep\<lparr>dep_Pods := dep_Pods dep @ [length (heap a)]\<rparr>"
    have "\<not> replicaFails (nodes a) (localNodeName a) (tmpl_NodeSelector (dep_Template dep)) (env (nat i))"
      using "1.prems"(5) ik by simp
    from createReplica_ok [OF this, of key i]
    obtain a' where r: "createReplica (env (nat i)) key dep i a = (None, a', ?dep')"
      and d: "api_deployments a' key = Some ?dep'"
      and f: "nodes a' = nodes a" "localNodeName a' = localNodeName a"
      and h: "length (heap a') = Suc (length (heap a))"
      by blast
    have p1: "0 \<le> i + 1" using "1.prems"(1) by simp
    have p2: "nat (i + 1) \<le> k" using ik "1.prems"(1) by simp
    have p3: "int k < dep_DesiredReplicas ?dep'" using "1.prems"(3) by simp
    have p4: "replicaFails (nodes a') (localNodeName a') (tmpl_NodeSelector (dep_Template ?dep')) (env k)"
      using "1.prems"(4) f by simp
    have p5: "\<forall>j. nat (i + 1) \<le> j \<and> j < k \<longrightarrow>
             \<not> replicaFails (nodes a') (localNodeName a') (tmpl_NodeSelector (dep_Template ?dep')) (env j)"
      using "1.prems"(1,5) f by auto
    from "1.IH" [OF lt r [symmetric] refl refl p1 p2 p3 p4 p5 d]
    obtain a'' where c: "createPods env key ?dep' (i + 1) a' =
          (Some (replicaError (nodes a') (tmpl_NodeSelector (dep_Template ?dep')) (env k)), a'')"
      and n: "podCount a'' key = Some (length (dep_Pods ?dep') + (k - nat (i + 1)))"
      and hh: "length (heap a'') = length (heap a') + (k - nat (i + 1)) + 1"
      by blast
    have cp: "createPods env key dep i a =
        (Some (replicaError (nodes a) (tmpl_NodeSelector (dep_Template dep)) (env k)), a'')"
      using lt r c f by (subst createPods.simps) simp
    have s1: "nat (i + 1) = Suc (nat i)" using "1.prems"(1) by simp
    have s2: "Suc (nat i) \<le> k" using ik by simp
    have n': "podCount a'' key = Some (length (dep_Pods dep) + (k - nat i))"
      using n s2 unfolding s1 by simp
    have hh': "length (heap a'') = length (heap a) + (k - nat i) + 1"
      using hh h s2 unfolding s1 by simp
    show ?thesis using cp n' hh' by blast
  qed
qed

text \<open>
  Claim C3, amended. Applying a Deployment with \<open>N\<close> desired replicas: when no replica
  fails (a node can be chosen for each, and the runtime creates and starts each container
  placed on the local node), the apply returns no error and the Deployment has exactly
  \<open>N\<close> pods (none when \<open>N\<close> is negative). When replica \<open>k\<close> is the first to fail, the apply
  returns the error of that replica at once: the Deployment has the \<open>k\<close> pods appended
  before, and no further pod is constructed.
\<close>

theorem C3_applyDeployment:
  assumes "k_Replicas d = Some N"
  shows "((\<forall>j. int j < N \<longrightarrow>
            \<not> replicaFails (nodes a) (localNodeName a) (tmpl_NodeSelector (k_Template d)) (env j)) \<longrightarrow>
          (\<exists>a'. applyDeployment env a d = Returned (None, a')
             \<and> podCount a' (storeKey (k_Namespace d) (k_Name d)) = Some (nat N)))
       \<and> (int k < N
          \<and> replicaFails (nodes a) (localNodeName a) (tmpl_NodeSelector (k_Template d)) (env k)
          \<and> (\<forall>j<k. \<not> replicaFails (nodes a) (localNodeName a) (tmpl_NodeSelector (k_Template d)) (env j)) \<longrightarrow>
          (\<exists>a'. applyDeployment env a d =
                  Returned (Some (replicaError (nodes a) (tmpl_NodeSelector (k_Template d)) (env k)), a')
             \<and> podCount a' (storeKey (k_Namespace d) (k_Name d)) = Some k
             \<and> length (heap a') = length (heap a) + k + 1))"
proof -
  define dep where "dep = \<lparr>dep_Name = k_Name d, dep_Namespace = k_Namespace d, dep_Replicas = N,
      dep_DesiredReplicas = N, dep_Pods = [], dep_Template = k_Template d,
      dep_Labels = k_Labels d, dep_Selector = k_Selector d\<rparr>"
  define key where "key = storeKey (k_Namespace d) (k_Name d)"
  define a1 where "a1 = a\<lparr>api_deployments := (api_deployments a)(key \<mapsto> dep)\<rparr>"
  have app: "applyDeployment env a d = Returned (createPods env key dep 0 a1)"
    using assms by (simp add: applyDeployment_def ParseDeployment_def dep_def key_def a1_def Let_def)
  have facts: "nodes a1 = nodes a" "localNodeName a1 = localNodeName a" "heap a1 = heap a"
    "api_deployments a1 key = Some dep" "tmpl_NodeSelector (dep_Template dep) = tmpl_NodeSelector (k_Template d)"
    "dep_DesiredReplicas dep = N" "dep_Pods dep = []"
    by (simp_all add: a1_def dep_def)
  show ?thesis
  proof (intro conjI impI)
    assume ok: "\<forall>j. int j < N \<longrightarrow>
            \<not> replicaFails (nodes a) (localNodeName a) (tmpl_NodeSelector (k_Template d)) (env j)"
    have "\<exists>a'. createPods env key dep 0 a1 = (None, a')
           \<and> podCount a' key = Some (length (dep_Pods dep) + nat (dep_DesiredReplicas dep - 0))"
      by (rule createPods_all_ok) (use ok facts in auto)
    then show "\<exists>a'. applyDeployment env a d = Returned (None, a')
             \<and> podCount a' (storeKey (k_Namespace d) (k_Name d)) = Some (nat N)"
      using app facts by (simp add: key_def)
  next
    assume f: "int k < N
          \<and> replicaFails (nodes a) (localNodeName a) (tmpl_NodeSelector (k_Template d)) (env k)
          \<and> (\<forall>j<k. \<not> replicaFails (nodes a) (localNodeName a) (tmpl_NodeSelector (k_Template d)) (env j))"
    have "\<exists>a'. createPods env key dep 0 a1 =
             (Some (replicaError (nodes a1) (tmpl_NodeSelector (dep_Template dep)) (env k)), a')
           \<and> podCount a' key = Some (length (dep_Pods dep) + (k - nat 0))
           \<and> length (heap a') = length (heap a1) + (k - nat 0) + 1"
      by (rule createPods_first_failure) (use f facts in auto)
    then show "\<exists>a'. applyDeployment env a d =
                  Returned (Some (replicaError (nodes a) (tmpl_NodeSelector (k_Template d)) (env k)), a')
             \<and> podCount a' (storeKey (k_Namespace d) (k_Name d)) = Some k
             \<and> length (heap a') = length (heap a) + k + 1"
      using app facts by (simp add: key_def)
  qed
qed


lemma demo_replicaFails:
  "replicaFails (nodes demo_api) (localNodeName demo_api)
     (tmpl_NodeSelector (k_Template (demo_manifest n))) (env_failing_at k j) \<longleftrightarrow> j = k"
  by (simp add: replicaFails_def chooseNode_def demo_api_def demo_manifest_def demo_template_def
      env_failing_at_def node1_def)

theorem C3_applyDeployment_witness:
  "(\<exists>a'. applyDeployment (env_failing_at 5) demo_api (demo_manifest 2) = Returned (None, a')
       \<and> podCount a' ''default/nginx'' = Some 2)
   \<and> (\<exists>a'. applyDeployment (env_failing_at 1) demo_api (demo_manifest 2) =
            Returned (Some CreatePodError, a')
       \<and> podCount a' ''default/nginx'' = Some 1 \<and> length (heap a') = 2)"
proof -
  have r: "k_Replicas (demo_manifest 2) = Some 2" by (simp add: demo_manifest_def)
  have key: "storeKey (k_Namespace (demo_manifest 2)) (k_Name (demo_manifest 2)) = ''default/nginx''"
    by (simp add: storeKey_def demo_manifest_def)
  have ok: "\<forall>j. int j < 2 \<longrightarrow>
      \<not> replicaFails (nodes demo_api) (localNodeName demo_api)
          (tmpl_NodeSelector (k_Template (demo_manifest 2))) (env_failing_at 5 j)"
    by (simp add: demo_replicaFails)
  have bad: "int 1 < 2
      \<and> replicaFails (nodes demo_api) (localNodeName demo_api)
          (tmpl_NodeSelector (k_Template (demo_manifest 2))) (env_failing_at 1 1)
      \<and> (\<forall>j<1. \<not> replicaFails (nodes demo_api) (localNodeName demo_api)
          (tmpl_NodeSelector (k_Template (demo_manifest 2))) (env_failing_at 1 j))"
    by (simp add: demo_replicaFails)
  have h: "length (heap demo_api) = 0" by (simp add: demo_api_def)
  from C3_applyDeployment [OF r, where a = demo_api and env = "env_failing_at 5", THEN conjunct1,
      THEN mp, OF ok]
  have a: "\<exists>a'. applyDeployment (env_failing_at 5) demo_api (demo_manifest 2) = Returned (None, a')
       \<and> podCount a' ''default/nginx'' = Some 2"
    by (simp add: key)
  have e: "replicaError (nodes demo_api) (tmpl_NodeSelector (k_Template (demo_manifest 2)))
      (env_failing_at (Suc 0) (Suc 0)) = CreatePodError"
    by (simp add: replicaError_def chooseNode_def demo_api_def demo_manifest_def demo_template_def
        env_failing_at_def)
  from C3_applyDeployment [OF r, where a = demo_api and env = "env_failing_at 1" and k = 1,
      THEN conjunct2, THEN mp, OF bad]
  have b: "\<exists>a'. applyDeployment (env_failing_at 1) demo_api (demo_manifest 2) =
            Returned (Some CreatePodError, a')
       \<and> podCount a' ''default/nginx'' = Some 1 \<and> length (heap a') = 2"
    by (simp add: key h e numeral_2_eq_2)
  show ?thesis using a b by simp
qed

text \<open>
  Claim C3 as stated fails: with two desired replicas and a runtime that fails to create
  the container of the first, \<open>applyDeployment\<close> returns the error at once; the Deployment
  has no pods and the second replica is never handed to the runtime.
\<close>

theorem C3_counterexample:
  "k_Replicas (demo_manifest 2) = Some 2
   \<and> apply_error (env_failing_at 0) demo_api (demo_manifest 2) = Returned (Some CreatePodError)
   \<and> apply_pods (env_failing_at 0) demo_api (demo_manifest 2) = Returned (Some 0)
   \<and> apply_calls (env_failing_at 0) demo_api (demo_manifest 2) = Returned [CallCreatePod ''nginx-0'']"
proof -
  have c: "createReplica (env_failing_at 0 0) ''default/nginx'' dep 0
             (demo_api\<lparr>api_deployments := (api_deployments demo_api)(''default/nginx'' \<mapsto> dep)\<rparr>) =
           (Some CreatePodError,
            demo_api\<lparr>api_deployments := (api_deployments demo_api)(''default/nginx'' \<mapsto> dep),
                     heap := [(ExtractPodFromTemplate demo_template ''default'' ''nginx-0'')
                                \<lparr>pod_ID := ''id-0'', pod_CreatedAt := 1700000000,
                                 pod_NodeName := ''node-1''\<rparr>],
                     sched_pods := [(''id-0'', 0)],
                     runtime_calls := [CallCreatePod ''nginx-0'']\<rparr>, dep)"
    if "dep_Name dep = ''nginx''" "dep_Namespace dep = ''default''" "dep_Template dep = demo_template"
    for dep
    using that
    by (simp add: createReplica_def SchedulePod_def chooseNode_def env_failing_at_def
        demo_api_def node1_def itoa_def Let_def ExtractPodFromTemplate_def demo_template_def)
  have "applyDeployment (env_failing_at 0) demo_api (demo_manifest 2) =
          Returned (createPods (env_failing_at 0) ''default/nginx''
            \<lparr>dep_Name = ''nginx'', dep_Namespace = ''default'', dep_Replicas = 2,
              dep_DesiredReplicas = 2, dep_Pods = [], dep_Template = demo_template,
              dep_Labels = [], dep_Selector = Some [(''app'', ''nginx'')]\<rparr> 0
            (demo_api\<lparr>api_deployments := (api_deployments demo_api)(''default/nginx'' \<mapsto>
              \<lparr>dep_Name = ''nginx'', dep_Namespace = ''default'', dep_Replicas = 2,
                dep_DesiredReplicas = 2, dep_Pods = [], dep_Template = demo_template,
                dep_Labels = [], dep_Selector = Some [(''app'', ''nginx'')]\<rparr>)\<rparr>))"
    by (simp add: applyDeployment_def ParseDeployment_def demo_manifest_def storeKey_def Let_def)
  also have "\<dots> = Returned (Some CreatePodError,
            demo_api\<lparr>api_deployments := (api_deployments demo_api)(''default/nginx'' \<mapsto>
              \<lparr>dep_Name = ''nginx'', dep_Namespace = ''default'', dep_Replicas = 2,
                dep_DesiredReplicas = 2, dep_Pods = [], dep_Template = demo_template,
                dep_Labels = [], dep_Selector = Some [(''app'', ''nginx'')]\<rparr>),
                     heap := [(ExtractPodFromTemplate demo_template ''default'' ''nginx-0'')
                                \<lparr>pod_ID := ''id-0'', pod_CreatedAt := 1700000000,
                                 pod_NodeName := ''node-1''\<rparr>],
                     sched_pods := [(''id-0'', 0)],
                     runtime_calls := [CallCreatePod ''nginx-0'']\<rparr>)"
    by (subst createPods.simps) (simp add: c)
  finally show ?thesis
    by (simp add: apply_error_def apply_pods_def apply_calls_def podCount_def demo_manifest_def
        storeKey_def)
qed

end
